theory Spec2Isabelle
  imports Main
begin

section \<open>Python values and exceptions\<close>

text \<open>
  BHD.py is a Python download script. Its data are JSON values obtained from the API
  (\<open>json.loads\<close>), strings and integers. JSON objects are association lists in key order
  (Python dictionaries iterate in insertion order).
\<close>

datatype pyval =
    PNone
  | PBool bool
  | PInt int
  | PStr string
  | PList "pyval list"
  | PDict "(string \<times> pyval) list"

text \<open>The exceptions the script raises or lets escape, as values.\<close>

datatype error =
    KeyError pyval
  | TypeError
  | ValueError
  | UnicodeDecodeError
  | RequestException
  | OSError
  | ArgumentTypeError string

section \<open>Integers and their text\<close>

text \<open>\<open>str(n)\<close> of an integer: its decimal text.\<close>

definition digit_char :: "nat \<Rightarrow> char" where
  "digit_char d = ''0123456789'' ! d"

fun str_nat :: "nat \<Rightarrow> string" where
  "str_nat n = (if n < 10 then [digit_char n] else str_nat (n div 10) @ [digit_char (n mod 10)])"

declare str_nat.simps [simp del]

definition str_int :: "int \<Rightarrow> string" where
  "str_int i = (if i < 0 then CHR ''-'' # str_nat (nat (- i)) else str_nat (nat i))"

section \<open>The CandID argument checker\<close>

text \<open>
  \<open>candidate_argument_checker\<close> (BHD.py, lines 582-600) is the \<open>type=\<close> callback of the
  \<open>--candidate\<close> option, so argparse hands it the command-line word, a string. What
  the built-in \<open>int\<close> makes of a string belongs to the interpreter (its Unicode tables, its
  limit on the number of digits), so \<open>int\<close> on strings is a parameter: \<open>int_builtin s\<close> is
  \<open>None\<close> when \<open>int(s)\<close> raises \<open>ValueError\<close>, and the integer otherwise.
\<close>

definition candidate_argument_checker :: "(string \<Rightarrow> int option) \<Rightarrow> string \<Rightarrow> error + int" where
  "candidate_argument_checker int_builtin candID =
     (case int_builtin candID of
        None \<Rightarrow>
          Inl (ArgumentTypeError
            (''Invalid <class 'str'> type for the CandID number. '' @
             ''Use strings or ints without commas.''))
      | Some n \<Rightarrow>
          if n \<ge> 9999999 \<or> n \<le> 1000000 then
            Inl (ArgumentTypeError (str_int n @ '': Invalid CandID number.''))
          else Inr n)"

definition is_argument_type_error :: "error + int \<Rightarrow> bool" where
  "is_argument_type_error r = (case r of Inl (ArgumentTypeError msg) \<Rightarrow> True | _ \<Rightarrow> False)"

section \<open>Reading JSON values\<close>

text \<open>Exceptions in plain computations: the first one raised wins.\<close>

definition err_bind :: "error + 'a \<Rightarrow> ('a \<Rightarrow> error + 'b) \<Rightarrow> error + 'b" where
  "err_bind m f = (case m of Inl e \<Rightarrow> Inl e | Inr x \<Rightarrow> f x)"

text \<open>
  \<open>value[key]\<close> with a string key: a dictionary without the key raises \<open>KeyError\<close>, a
  value of another type \<open>TypeError\<close>.
\<close>

fun getitem :: "pyval \<Rightarrow> string \<Rightarrow> error + pyval" where
  "getitem (PDict d) key = (case map_of d key of None \<Rightarrow> Inl (KeyError (PStr key)) | Some v \<Rightarrow> Inr v)"
| "getitem v key = Inl TypeError"

text \<open>
  \<open>for x in value\<close>: a list yields its elements, a dictionary its keys, a string its
  characters; other values are not iterable.
\<close>

fun py_iter :: "pyval \<Rightarrow> error + pyval list" where
  "py_iter (PList xs) = Inr xs"
| "py_iter (PDict d) = Inr (map (\<lambda>kv. PStr (fst kv)) d)"
| "py_iter (PStr s) = Inr (map (\<lambda>c. PStr [c]) s)"
| "py_iter v = Inl TypeError"

text \<open>
  A dictionary key must be hashable. (Python also identifies the keys \<open>True\<close> and \<open>1\<close>,
  \<open>False\<close> and \<open>0\<close>; the model keeps them apart.)
\<close>

fun py_key :: "pyval \<Rightarrow> error + pyval" where
  "py_key (PList xs) = Inl TypeError"
| "py_key (PDict d) = Inl TypeError"
| "py_key v = Inr v"

text \<open>A value used where only a string works (\<open>str + value\<close>).\<close>

fun as_str :: "pyval \<Rightarrow> error + string" where
  "as_str (PStr s) = Inr s"
| "as_str v = Inl TypeError"

text \<open>\<open>int(value)\<close>, with the built-in \<open>int\<close> on strings as its parameter.\<close>

fun int_of :: "(string \<Rightarrow> int option) \<Rightarrow> pyval \<Rightarrow> error + int" where
  "int_of int_builtin (PInt i) = Inr i"
| "int_of int_builtin (PBool b) = Inr (if b then 1 else 0)"
| "int_of int_builtin (PStr s) =
     (case int_builtin s of None \<Rightarrow> Inl ValueError | Some i \<Rightarrow> Inr i)"
| "int_of int_builtin v = Inl TypeError"

text \<open>The truth value of a JSON value.\<close>

fun truthy :: "pyval \<Rightarrow> bool" where
  "truthy PNone = False"
| "truthy (PBool b) = b"
| "truthy (PInt i) = (i \<noteq> 0)"
| "truthy (PStr s) = (s \<noteq> [])"
| "truthy (PList xs) = (xs \<noteq> [])"
| "truthy (PDict d) = (d \<noteq> [])"

subsection \<open>Dictionaries with other keys\<close>

text \<open>
  The dictionaries the script builds are keyed by JSON values (candidate, visit and
  category names). They are association lists in insertion order. Python compares keys
  with \<open>==\<close>, under which \<open>True\<close> is \<open>1\<close> and \<open>False\<close> is \<open>0\<close>; a key that is already
  there keeps its first spelling when its value is assigned again. (JSON numbers with a
  fraction are not among the values of the model.)
\<close>

fun norm_key :: "pyval \<Rightarrow> pyval" where
  "norm_key (PBool b) = PInt (if b then 1 else 0)"
| "norm_key v = v"

fun dict_get :: "(pyval \<times> 'v) list \<Rightarrow> pyval \<Rightarrow> 'v option" where
  "dict_get [] k = None"
| "dict_get ((k', v') # d) k = (if norm_key k' = norm_key k then Some v' else dict_get d k)"

fun dict_set :: "pyval \<Rightarrow> 'v \<Rightarrow> (pyval \<times> 'v) list \<Rightarrow> (pyval \<times> 'v) list" where
  "dict_set k v [] = [(k, v)]"
| "dict_set k v ((k', v') # d) =
     (if norm_key k' = norm_key k then (k', v) # d else (k', v') # dict_set k v d)"

subsection \<open>The text of a value\<close>

text \<open>
  \<open>str(value)\<close>, which is also what \<open>"%s" % value\<close> puts in: a string is its own text,
  and every other value has the text \<open>repr\<close> gives it. The built-in \<open>repr\<close> is a parameter.
\<close>

fun py_str :: "(pyval \<Rightarrow> string) \<Rightarrow> pyval \<Rightarrow> string" where
  "py_str repr_builtin (PStr s) = s"
| "py_str repr_builtin v = repr_builtin v"

section \<open>The world outside the script\<close>

text \<open>
  The script talks to an HTTP API through the \<open>requests\<close> library and writes to the local
  disk. Both are made explicit. A request is what \<open>session_object.get(url=, headers=)\<close>
  sends: the URL, the headers of the session object and the headers of the call.
\<close>

type_synonym headers = "(string \<times> string) list"

record response =
  status_code :: int
  content :: string
  resp_headers :: headers

record request =
  req_url :: string
  req_session_headers :: headers
  req_headers :: headers

text \<open>
  One attempt to send a request either raises or yields a response. \<open>ConnectTimeout\<close>
  and \<open>ConnectionError\<close> are the two exception classes the script catches (each with the
  text \<open>print\<close> shows for it); \<open>OtherRequestException\<close> stands for every exception of
  \<open>requests\<close> it does not catch.
\<close>

datatype outcome =
    ConnectTimeout string
  | ConnectionError string
  | OtherRequestException
  | Response response

text \<open>
  The environment is what the script cannot control: what the \<open>i\<close>-th GET of the run
  meets, what the login POST meets, the text of \<open>datetime.datetime.now()\<close> at the
  \<open>i\<close>-th GET, and three functions of the interpreter and its library, taken as
  parameters: \<open>json.loads\<close>, the built-in \<open>int\<close> on strings (\<open>None\<close> when they raise)
  and the built-in \<open>repr\<close>.
\<close>

record env =
  server :: "nat \<Rightarrow> request \<Rightarrow> outcome"
  login_server :: "string \<Rightarrow> string \<Rightarrow> string \<Rightarrow> outcome"
  now :: "nat \<Rightarrow> string"
  json_loads :: "string \<Rightarrow> pyval option"
  str_to_int :: "string \<Rightarrow> int option"
  py_repr :: "pyval \<Rightarrow> string"

text \<open>
  The state: the regular files on disk with their contents and the directories (paths are
  the strings the script builds), the script's global variables \<open>token\<close>, \<open>verbosity\<close>
  and \<open>base_directory\<close>, and what was printed. Three fields are bookkeeping the script
  does not have: \<open>clock\<close> counts the GET requests sent so far, \<open>sent\<close> lists them, and
  \<open>fetches\<close> lists the calls of \<open>get_file\<close> (request, location, file name, ETag checking).
  Opening a file for writing always succeeds in the model: the destination directory is
  taken to exist and to be writable.
\<close>

type_synonym fetch = "string \<times> string \<times> string \<times> bool"

record world =
  files :: "string \<rightharpoonup> string"
  dirs :: "string set"
  token :: string
  verbosity :: bool
  base_directory :: string
  stdout :: "string list"
  clock :: nat
  sent :: "request list"
  fetches :: "fetch list"

definition hostname :: string where
  "hostname = ''https://registeredpreventad.loris.ca''"

definition api_version :: string where
  "api_version = ''/api/v0.0.3-dev''"

text \<open>
  A computation either does not return (\<open>None\<close>), or returns the new state with an
  exception (\<open>Inl\<close>) or a value (\<open>Inr\<close>).
\<close>

type_synonym 'a io = "world \<Rightarrow> ((error + 'a) \<times> world) option"

definition io_return :: "'a \<Rightarrow> 'a io" where
  "io_return x w = Some (Inr x, w)"

definition io_raise :: "error \<Rightarrow> 'a io" where
  "io_raise e w = Some (Inl e, w)"

definition io_bind :: "'a io \<Rightarrow> ('a \<Rightarrow> 'b io) \<Rightarrow> 'b io" where
  "io_bind m f w =
     (case m w of
        None \<Rightarrow> None
      | Some (Inl e, w') \<Rightarrow> Some (Inl e, w')
      | Some (Inr x, w') \<Rightarrow> f x w')"

definition io_lift :: "error + 'a \<Rightarrow> 'a io" where
  "io_lift r w = Some (r, w)"

definition print :: "string \<Rightarrow> world \<Rightarrow> world" where
  "print line w = w\<lparr>stdout := stdout w @ [line]\<rparr>"

definition io_print :: "string \<Rightarrow> unit io" where
  "io_print line w = Some (Inr (), print line w)"

definition print_if_verbose :: "string \<Rightarrow> unit io" where
  "print_if_verbose line w = (if verbosity w then io_print line w else io_return () w)"

subsection \<open>Files and directories\<close>

definition os_path_isfile :: "world \<Rightarrow> string \<Rightarrow> bool" where
  "os_path_isfile w path = (files w path \<noteq> None)"

definition os_path_exists :: "world \<Rightarrow> string \<Rightarrow> bool" where
  "os_path_exists w path = (files w path \<noteq> None \<or> path \<in> dirs w)"

definition os_makedirs :: "string \<Rightarrow> unit io" where
  "os_makedirs path w =
     (if os_path_exists w path then Some (Inl OSError, w)
      else Some (Inr (), w\<lparr>dirs := insert path (dirs w)\<rparr>))"

definition os_remove :: "string \<Rightarrow> unit io" where
  "os_remove path w =
     (if os_path_isfile w path then Some (Inr (), w\<lparr>files := (files w)(path := None)\<rparr>)
      else Some (Inl OSError, w))"

text \<open>\<open>open(path, "r")\<close> followed by \<open>read()\<close>.\<close>

definition file_read :: "string \<Rightarrow> string io" where
  "file_read path w =
     (case files w path of None \<Rightarrow> Some (Inl OSError, w) | Some text \<Rightarrow> Some (Inr text, w))"

text \<open>
  \<open>open(path, "w")\<close> and \<open>open(path, "w+b")\<close> create the file or cut it to length zero
  at once; \<open>write\<close> then appends to it.
\<close>

definition file_open_w :: "string \<Rightarrow> unit io" where
  "file_open_w path w = Some (Inr (), w\<lparr>files := (files w)(path \<mapsto> [])\<rparr>)"

definition file_write :: "string \<Rightarrow> string \<Rightarrow> unit io" where
  "file_write path text w =
     (case files w path of
        None \<Rightarrow> Some (Inl OSError, w)
      | Some old \<Rightarrow> Some (Inr (), w\<lparr>files := (files w)(path \<mapsto> old @ text)\<rparr>))"

definition os_path_basename :: "string \<Rightarrow> string" where
  "os_path_basename path = rev (takeWhile (\<lambda>c. c \<noteq> CHR ''/'') (rev path))"

subsection \<open>Response objects\<close>

text \<open>
  \<open>response.headers\<close> is a case-insensitive dictionary: a lookup compares the lower-cased
  names, and a missing name is \<open>KeyError\<close> of the lower-cased name.
\<close>

definition lower_table :: "(char \<times> char) list" where
  "lower_table = zip ''ABCDEFGHIJKLMNOPQRSTUVWXYZ'' ''abcdefghijklmnopqrstuvwxyz''"

definition lower_char :: "char \<Rightarrow> char" where
  "lower_char c = (case map_of lower_table c of None \<Rightarrow> c | Some l \<Rightarrow> l)"

definition lower :: "string \<Rightarrow> string" where
  "lower s = map lower_char s"

definition header_getitem :: "headers \<Rightarrow> string \<Rightarrow> error + string" where
  "header_getitem hs name =
     (case map_of (map (\<lambda>(k, v). (lower k, v)) hs) (lower name) of
        None \<Rightarrow> Inl (KeyError (PStr (lower name)))
      | Some v \<Rightarrow> Inr v)"

text \<open>The truth value of a response object is its \<open>ok\<close>: no 4xx or 5xx status.\<close>

definition response_ok :: "response \<Rightarrow> bool" where
  "response_ok r = (\<not> (400 \<le> status_code r \<and> status_code r < 600))"

section \<open>The GET executor\<close>

definition mk_request :: "string \<Rightarrow> headers \<Rightarrow> headers \<Rightarrow> request" where
  "mk_request url session_object headers =
     \<lparr>req_url = url, req_session_headers = session_object, req_headers = headers\<rparr>"

definition issue :: "request \<Rightarrow> world \<Rightarrow> world" where
  "issue rq w = w\<lparr>clock := Suc (clock w), sent := sent w @ [rq]\<rparr>"

text \<open>What the two \<open>except\<close> clauses print before \<open>continue\<close>.\<close>

definition report_retry :: "env \<Rightarrow> string \<Rightarrow> string \<Rightarrow> string \<Rightarrow> string \<Rightarrow> world \<Rightarrow> world" where
  "report_retry E kind Kind api_request msg w =
     (if verbosity w then
        print msg
          (print (''The request '' @ api_request @ '' done at '' @ now E (clock w) @
                  '' raised a '' @ kind @ '' error.'' @ [CHR 0x0A] @
                  ''The error message follows. Retrying.'') w)
      else
        print (Kind @ '' for the download of '' @ os_path_basename api_request @
               ''. Retrying.'') w)"

text \<open>
  \<open>process_api_get\<close> (BHD.py, lines 246-305): a \<open>while True\<close> loop around
  \<open>session_object.get\<close>. The loop may run forever, so the function is partial:
  \<open>None\<close> is a call that never returns.
\<close>

partial_function (option) process_api_get ::
  "env \<Rightarrow> string \<Rightarrow> headers \<Rightarrow> string \<Rightarrow> int list \<Rightarrow> headers \<Rightarrow> world
     \<Rightarrow> ((error + response) \<times> world) option"
where
  "process_api_get E url headers api_request expected_codes session_object w =
     (case server E (clock w) (mk_request url session_object headers) of
        ConnectTimeout msg \<Rightarrow>
          process_api_get E url headers api_request expected_codes session_object
            (issue (mk_request url session_object headers)
               (report_retry E ''timeout'' ''Connection timeout'' api_request msg w))
      | ConnectionError msg \<Rightarrow>
          process_api_get E url headers api_request expected_codes session_object
            (issue (mk_request url session_object headers)
               (report_retry E ''connection'' ''Connection error'' api_request msg w))
      | OtherRequestException \<Rightarrow>
          Some (Inl RequestException, issue (mk_request url session_object headers) w)
      | Response server_response \<Rightarrow>
          if status_code server_response \<in> set expected_codes then
            Some (Inr server_response, issue (mk_request url session_object headers) w)
          else
            process_api_get E url headers api_request expected_codes session_object
              (issue (mk_request url session_object headers) w))"

section \<open>JSON requests and file downloads\<close>

text \<open>\<open>json.loads(server_response.content.decode('ascii'))\<close>.\<close>

definition loads_ascii :: "env \<Rightarrow> string \<Rightarrow> error + pyval" where
  "loads_ascii E bytes =
     (if list_ex (\<lambda>c. 128 \<le> (of_char c :: nat)) bytes then Inl UnicodeDecodeError
      else case json_loads E bytes of None \<Rightarrow> Inl ValueError | Some v \<Rightarrow> Inr v)"

text \<open>\<open>get_json\<close> (BHD.py, lines 122-154).\<close>

definition get_json :: "env \<Rightarrow> string \<Rightarrow> headers \<Rightarrow> pyval io" where
  "get_json E api_request session_object =
     io_bind (process_api_get E (hostname @ api_version @ api_request) [] api_request [200]
                session_object)
       (\<lambda>server_response.
     io_bind (print_if_verbose (''Success: '' @ api_request))
       (\<lambda>_.
     io_lift (loads_ascii E (content server_response))))"

datatype download = New | Current

definition etag_path :: "string \<Rightarrow> string \<Rightarrow> string" where
  "etag_path download_location filename = download_location @ ''.'' @ filename @ ''.etag''"

definition note_fetch :: "fetch \<Rightarrow> world \<Rightarrow> world" where
  "note_fetch call w = w\<lparr>fetches := fetches w @ [call]\<rparr>"

text \<open>
  \<open>get_file\<close> (BHD.py, lines 157-243), in three parts. \<open>write_download\<close> is the code from
  line 228 on, which writes the body and then the sidecar: the sidecar is opened (created
  empty) before \<open>server_response.headers['ETag']\<close> is looked up. \<open>save_file\<close> is the code
  from line 218 on: \<open>kept\<close> is \<open>None\<close> for the initial empty string \<open>server_response\<close>,
  and otherwise the response kept from the conditional request.
\<close>

definition write_download ::
  "string \<Rightarrow> string \<Rightarrow> string \<Rightarrow> bool \<Rightarrow> response \<Rightarrow> download io"
where
  "write_download api_request download_location filename etag_checking server_response =
     io_bind (file_open_w (download_location @ filename))
       (\<lambda>_.
     io_bind (file_write (download_location @ filename) (content server_response))
       (\<lambda>_.
     io_bind
       (if etag_checking then
          io_bind (file_open_w (etag_path download_location filename))
            (\<lambda>_.
          io_bind (io_lift (header_getitem (resp_headers server_response) ''ETag''))
            (\<lambda>etag.
          file_write (etag_path download_location filename) etag))
        else io_return ())
       (\<lambda>_.
     io_bind (print_if_verbose (''Success: '' @ api_request))
       (\<lambda>_.
     io_return New))))"

definition save_file ::
  "env \<Rightarrow> string \<Rightarrow> string \<Rightarrow> string \<Rightarrow> bool \<Rightarrow> headers \<Rightarrow> response option \<Rightarrow> download io"
where
  "save_file E api_request download_location filename etag_checking session_object kept =
     io_bind
       (case kept of
          None \<Rightarrow>
            process_api_get E (hostname @ api_version @ api_request) [] api_request [200]
              session_object
        | Some r \<Rightarrow>
            if \<not> response_ok r then
              process_api_get E (hostname @ api_version @ api_request) [] api_request [200]
                session_object
            else io_return r)
       (\<lambda>server_response.
          write_download api_request download_location filename etag_checking server_response)"

definition get_file ::
  "env \<Rightarrow> string \<Rightarrow> string \<Rightarrow> string \<Rightarrow> bool \<Rightarrow> headers \<Rightarrow> download io"
where
  "get_file E api_request download_location filename etag_checking session_object w0 =
     (let w = note_fetch (api_request, download_location, filename, etag_checking) w0 in
      if etag_checking \<and> os_path_isfile w (etag_path download_location filename) then
        io_bind (file_read (etag_path download_location filename))
          (\<lambda>etag.
        io_bind
          (process_api_get E (hostname @ api_version @ api_request)
             [(''If-None-Match'', etag)] api_request [200, 304] session_object)
          (\<lambda>server_response.
        if status_code server_response = 304 then
          io_bind (print_if_verbose (''File: '' @ filename @ '' was already downloaded''))
            (\<lambda>_. io_return Current)
        else
          io_bind (os_remove (etag_path download_location filename))
            (\<lambda>_.
          save_file E api_request download_location filename etag_checking session_object
            (Some server_response)))) w
      else
        save_file E api_request download_location filename etag_checking session_object
          None w)"

section \<open>Sessions and loops\<close>

text \<open>
  \<open>requests.Session()\<close> with \<open>headers = {'Authorization': 'Bearer %s' % token}\<close>. Closing
  the session has no effect that the script could observe.
\<close>

definition new_session :: "world \<Rightarrow> headers" where
  "new_session w = [(''Authorization'', ''Bearer '' @ token w)]"

text \<open>A \<open>for\<close> loop whose body works on the state: it stops at the first exception.\<close>

fun for_each :: "('a \<Rightarrow> unit io) \<Rightarrow> 'a list \<Rightarrow> unit io" where
  "for_each body [] = io_return ()"
| "for_each body (x # xs) = io_bind (body x) (\<lambda>_. for_each body xs)"

text \<open>A loop that collects one result per element.\<close>

fun map_io :: "('a \<Rightarrow> 'b io) \<Rightarrow> 'a list \<Rightarrow> 'b list io" where
  "map_io f [] = io_return []"
| "map_io f (x # xs) =
     io_bind (f x) (\<lambda>y. io_bind (map_io f xs) (\<lambda>ys. io_return (y # ys)))"

text \<open>The same for plain computations.\<close>

fun fold_err :: "('a \<Rightarrow> 's \<Rightarrow> error + 's) \<Rightarrow> 'a list \<Rightarrow> 's \<Rightarrow> error + 's" where
  "fold_err step [] st = Inr st"
| "fold_err step (x # xs) st = err_bind (step x st) (fold_err step xs)"

fun map_err :: "('a \<Rightarrow> error + 'b) \<Rightarrow> 'a list \<Rightarrow> error + 'b list" where
  "map_err f [] = Inr []"
| "map_err f (x # xs) =
     err_bind (f x) (\<lambda>y. err_bind (map_err f xs) (\<lambda>ys. Inr (y # ys)))"

text \<open>
  \<open>if not os.path.exists(path): os.makedirs(path)\<close>, as both tree builders do it.
\<close>

definition ensure_dir :: "string \<Rightarrow> unit io" where
  "ensure_dir path w = (if \<not> os_path_exists w path then os_makedirs path w else io_return () w)"

section \<open>The categorized (BIDS) schema\<close>

text \<open>
  The tree that \<open>create_bids_candidates_list\<close> builds: per candidate the visits, per
  visit the two session files and the category folders with their file references.
\<close>

record bids_visit =
  Files :: "pyval list"
  Folders :: "(pyval \<times> pyval list) list"

record bids_candidate =
  CandID :: pyval
  Visits :: "(pyval \<times> bids_visit) list"

type_synonym bids_dict = "(pyval \<times> bids_candidate) list"

text \<open>
  The first loop (BHD.py, lines 538-555), one session record: a candidate not yet in the
  dictionary is added with this one visit; for a known candidate the visit is assigned,
  which replaces a visit of the same name.
\<close>

definition session_step :: "pyval \<Rightarrow> bids_dict \<Rightarrow> error + bids_dict" where
  "session_step session candidates =
     err_bind (getitem session ''Candidate'') (\<lambda>c.
     err_bind (py_key c) (\<lambda>_.
     case dict_get candidates c of
       None \<Rightarrow>
         err_bind (getitem session ''Visit'') (\<lambda>v.
         err_bind (getitem session ''TsvLink'') (\<lambda>tsv.
         err_bind (getitem session ''JsonLink'') (\<lambda>jsn.
         err_bind (py_key v) (\<lambda>_.
         Inr (candidates @
              [(c, \<lparr>CandID = c,
                    Visits = [(v, \<lparr>Files = [tsv, jsn], Folders = []\<rparr>)]\<rparr>)])))))
     | Some cand \<Rightarrow>
         err_bind (getitem session ''TsvLink'') (\<lambda>tsv.
         err_bind (getitem session ''JsonLink'') (\<lambda>jsn.
         err_bind (getitem session ''Visit'') (\<lambda>v.
         err_bind (py_key v) (\<lambda>_.
         Inr (dict_set c
                (cand\<lparr>Visits := dict_set v \<lparr>Files = [tsv, jsn], Folders = []\<rparr>
                                    (Visits cand)\<rparr>)
                candidates)))))))"

text \<open>The keys of an image record that are not links (lines 567-571).\<close>

definition metadata_keys :: "string list" where
  "metadata_keys = [''Candidate'', ''PSCID'', ''Visit'', ''LorisScanType'', ''Subfolder'']"

text \<open>
  \<open>[image[property] for property in image.keys() if property not in [...]]\<close>: the values
  of the remaining keys, in key order.
\<close>

fun image_links :: "pyval \<Rightarrow> pyval list" where
  "image_links (PDict d) =
     concat (map (\<lambda>k. case map_of d k of None \<Rightarrow> [] | Some v \<Rightarrow> [v])
               (filter (\<lambda>k. k \<notin> set metadata_keys) (map fst d)))"
| "image_links v = []"

definition folder_files :: "(pyval \<times> pyval list) list \<Rightarrow> pyval \<Rightarrow> pyval list" where
  "folder_files folders category = (case dict_get folders category of None \<Rightarrow> [] | Some fs \<Rightarrow> fs)"

text \<open>The inner loop (lines 567-573): one \<open>append\<close> per link.\<close>

fun append_links ::
  "pyval \<Rightarrow> pyval list \<Rightarrow> (pyval \<times> pyval list) list \<Rightarrow> (pyval \<times> pyval list) list"
where
  "append_links category [] folders = folders"
| "append_links category (link # links) folders =
     append_links category links
       (dict_set category (folder_files folders category @ [link]) folders)"

text \<open>
  The second loop (lines 558-573), one image record: the category list is created empty
  when the category is new, then the links are appended. A candidate or visit that no
  session record has named is a \<open>KeyError\<close>.
\<close>

definition image_step :: "pyval \<Rightarrow> bids_dict \<Rightarrow> error + bids_dict" where
  "image_step image_record candidates =
     err_bind (getitem image_record ''Subfolder'') (\<lambda>s.
     err_bind (getitem image_record ''Candidate'') (\<lambda>c.
     err_bind (py_key c) (\<lambda>_.
     case dict_get candidates c of
       None \<Rightarrow> Inl (KeyError c)
     | Some cand \<Rightarrow>
         err_bind (getitem image_record ''Visit'') (\<lambda>v.
         err_bind (py_key v) (\<lambda>_.
         case dict_get (Visits cand) v of
           None \<Rightarrow> Inl (KeyError v)
         | Some visit \<Rightarrow>
             err_bind (py_key s) (\<lambda>_.
             Inr (dict_set c
                    (cand\<lparr>Visits :=
                       dict_set v
                         (visit\<lparr>Folders :=
                            append_links s (image_links image_record)
                              (if dict_get (Folders visit) s = None
                               then Folders visit @ [(s, [])]
                               else Folders visit)\<rparr>)
                         (Visits cand)\<rparr>)
                    candidates)))))))"

text \<open>
  Lines 534-579: both loops over the manifest, then \<open>list(candidates['Candidates'].values())\<close>.
\<close>

definition fold_manifest :: "pyval \<Rightarrow> error + bids_candidate list" where
  "fold_manifest file_manifest =
     err_bind (err_bind (getitem file_manifest ''SessionFiles'') py_iter) (\<lambda>sessions.
     err_bind (fold_err session_step sessions []) (\<lambda>candidates.
     err_bind (err_bind (getitem file_manifest ''Images'') py_iter) (\<lambda>images.
     err_bind (fold_err image_step images candidates) (\<lambda>candidates.
     Inr (map snd candidates)))))"

text \<open>One of the five fixed dataset files (lines 508-532).\<close>

definition get_dataset_file ::
  "env \<Rightarrow> pyval \<Rightarrow> string \<Rightarrow> string \<Rightarrow> string \<Rightarrow> headers \<Rightarrow> unit io"
where
  "get_dataset_file E file_manifest section link_key filename session_object w =
     io_bind
       (io_lift (err_bind (err_bind (getitem file_manifest section) (\<lambda>d. getitem d link_key))
                   as_str))
       (\<lambda>link.
     io_bind (get_file E link (base_directory w) filename True session_object)
       (\<lambda>_. io_return ())) w"

text \<open>\<open>create_bids_candidates_list\<close> (BHD.py, lines 485-579).\<close>

definition create_bids_candidates_list :: "env \<Rightarrow> bids_candidate list io" where
  "create_bids_candidates_list E w =
     io_bind (get_json E ''/projects/loris/bids/'' (new_session w)) (\<lambda>file_manifest.
     io_bind (get_dataset_file E file_manifest ''DatasetDescription'' ''Link''
                ''dataset_description.json'' (new_session w)) (\<lambda>_.
     io_bind (get_dataset_file E file_manifest ''README'' ''Link'' ''README''
                (new_session w)) (\<lambda>_.
     io_bind (get_dataset_file E file_manifest ''BidsValidatorConfig'' ''Link''
                ''.bids-validator-config.json'' (new_session w)) (\<lambda>_.
     io_bind (get_dataset_file E file_manifest ''Participants'' ''TsvLink''
                ''participants.tsv'' (new_session w)) (\<lambda>_.
     io_bind (get_dataset_file E file_manifest ''Participants'' ''JsonLink''
                ''participants.json'' (new_session w)) (\<lambda>_.
     io_lift (fold_manifest file_manifest))))))) w"

text \<open>
  \<open>process_bids_func\<close> (BHD.py, lines 413-482): the directories first, then the files.
\<close>

definition bids_get_file :: "env \<Rightarrow> pyval \<Rightarrow> string \<Rightarrow> headers \<Rightarrow> unit io" where
  "bids_get_file E file_request download_location session_object =
     io_bind (io_lift (as_str file_request)) (\<lambda>link.
     io_bind (get_file E link download_location (os_path_basename link) True session_object)
       (\<lambda>_. io_return ()))"

definition process_bids_func :: "env \<Rightarrow> bids_candidate \<Rightarrow> bids_candidate io" where
  "process_bids_func E candidate w =
     io_bind (ensure_dir (base_directory w @ ''/sub-'' @ py_str (py_repr E) (CandID candidate))) (\<lambda>_.
     io_bind
       (for_each (\<lambda>(visit, record).
          io_bind (ensure_dir (base_directory w @ ''/sub-'' @ py_str (py_repr E) (CandID candidate)
                     @ ''/ses-'' @ py_str (py_repr E) visit)) (\<lambda>_.
          for_each (\<lambda>(category, links).
            ensure_dir (base_directory w @ ''/sub-'' @ py_str (py_repr E) (CandID candidate)
              @ ''/ses-'' @ py_str (py_repr E) visit @ ''/'' @ py_str (py_repr E) category))
            (Folders record)))
          (Visits candidate)) (\<lambda>_.
     io_bind
       (for_each (\<lambda>(visit, record).
          io_bind
            (for_each (\<lambda>session_file.
               bids_get_file E session_file
                 (base_directory w @ ''sub-'' @ py_str (py_repr E) (CandID candidate)
                    @ ''/ses-'' @ py_str (py_repr E) visit @ ''/'')
                 (new_session w))
               (Files record)) (\<lambda>_.
          for_each (\<lambda>(category, links).
            for_each (\<lambda>file_request.
              bids_get_file E file_request
                (base_directory w @ ''sub-'' @ py_str (py_repr E) (CandID candidate)
                   @ ''/ses-'' @ py_str (py_repr E) visit @ ''/'' @ py_str (py_repr E) category @ ''/'')
                (new_session w))
              links)
            (Folders record)))
          (Visits candidate)) (\<lambda>_.
     io_return candidate))) w"

section \<open>The flat (MINC) schema\<close>

text \<open>
  What \<open>process_minc_func\<close> keeps per visit under \<open>candidate['Visits']\<close>: the session JSON
  and the file names. The empty dictionary that a visit starts with is \<open>no_visit\<close>; the
  first loop fills every visit before anything reads it.
\<close>

record minc_visit =
  session_json :: pyval
  Filenames :: "pyval list"

definition no_visit :: minc_visit where
  "no_visit = \<lparr>session_json = PNone, Filenames = []\<rparr>"

text \<open>
  The candidate dictionary after the call: the properties the API sent and, apart, the
  value stored under its key \<open>Visits\<close>.
\<close>

record minc_candidate =
  properties :: "(string \<times> pyval) list"
  minc_visits :: "(pyval \<times> minc_visit) list"

text \<open>\<open>{visit: {} for visit in visits}\<close> (line 338).\<close>

fun empty_visits :: "pyval list \<Rightarrow> (pyval \<times> minc_visit) list \<Rightarrow> error + (pyval \<times> minc_visit) list"
where
  "empty_visits [] acc = Inr acc"
| "empty_visits (visit # visits) acc =
     err_bind (py_key visit) (\<lambda>_. empty_visits visits (dict_set visit no_visit acc))"

text \<open>The body of the loop at lines 341-355: two queries for one visit.\<close>

definition query_visit :: "env \<Rightarrow> pyval \<Rightarrow> headers \<Rightarrow> pyval \<Rightarrow> minc_visit io" where
  "query_visit E cand_id session_object visit =
     io_bind (get_json E (''/candidates/'' @ py_str (py_repr E) cand_id @ ''/'' @ py_str (py_repr E) visit)
                session_object) (\<lambda>session_json.
     io_bind (get_json E (''/candidates/'' @ py_str (py_repr E) cand_id @ ''/'' @ py_str (py_repr E) visit
                            @ ''/images'') session_object) (\<lambda>images_json.
     io_bind (io_lift (err_bind (getitem images_json ''Files'') py_iter)) (\<lambda>visit_files.
     io_bind (io_lift (map_err (\<lambda>visit_file. getitem visit_file ''Filename'') visit_files))
       (\<lambda>names.
     io_return \<lparr>session_json = session_json, Filenames = names\<rparr>))))"

fun query_visits ::
  "env \<Rightarrow> pyval \<Rightarrow> headers \<Rightarrow> pyval list \<Rightarrow> (pyval \<times> minc_visit) list
     \<Rightarrow> (pyval \<times> minc_visit) list io"
where
  "query_visits E cand_id session_object [] acc = io_return acc"
| "query_visits E cand_id session_object (visit # visits) acc =
     io_bind (query_visit E cand_id session_object visit) (\<lambda>record.
     query_visits E cand_id session_object visits (dict_set visit record acc))"

text \<open>Line 358: only the visits whose \<open>Filenames\<close> list is not empty stay.\<close>

definition keep_visits_with_files :: "(pyval \<times> minc_visit) list \<Rightarrow> (pyval \<times> minc_visit) list" where
  "keep_visits_with_files visits = filter (\<lambda>(key, val). Filenames val \<noteq> []) visits"

text \<open>Lines 334-358: the manifest of one candidate.\<close>

definition build_visits :: "env \<Rightarrow> pyval \<Rightarrow> headers \<Rightarrow> (pyval \<times> minc_visit) list io" where
  "build_visits E cand_id session_object =
     io_bind (get_json E (''/candidates/'' @ py_str (py_repr E) cand_id) session_object) (\<lambda>answer.
     io_bind (io_lift (err_bind (getitem answer ''Visits'') py_iter)) (\<lambda>visits.
     io_bind (io_lift (empty_visits visits [])) (\<lambda>empty.
     io_bind (query_visits E cand_id session_object visits empty) (\<lambda>filled.
     io_return (keep_visits_with_files filled)))))"

text \<open>The properties written to \<open>candidate.json\<close> (lines 368-374).\<close>

definition candidate_json_keys :: "string list" where
  "candidate_json_keys =
     [''CandID'', ''PSCID'', ''Site'', ''DoB'', ''Gender'', ''Language'', ''Project'']"

definition candidate_projection :: "pyval \<Rightarrow> error + pyval" where
  "candidate_projection candidate =
     err_bind (map_err (\<lambda>property_key.
                 err_bind (getitem candidate property_key) (\<lambda>v. Inr (property_key, v)))
               candidate_json_keys)
       (\<lambda>d. Inr (PDict d))"

text \<open>
  Lines 360-376: the candidate's directory and \<open>candidate.json\<close>. The file is opened
  (created empty) before the dictionary is built.
\<close>

definition write_candidate_json :: "env \<Rightarrow> pyval \<Rightarrow> pyval \<Rightarrow> unit io" where
  "write_candidate_json E candidate cand_id w =
     io_bind (ensure_dir (base_directory w @ ''/'' @ py_str (py_repr E) cand_id)) (\<lambda>_.
     io_bind (file_open_w (base_directory w @ ''/'' @ py_str (py_repr E) cand_id @ ''/candidate.json''))
       (\<lambda>_.
     io_bind (io_lift (candidate_projection candidate)) (\<lambda>d.
     file_write (base_directory w @ ''/'' @ py_str (py_repr E) cand_id @ ''/candidate.json'')
       (py_str (py_repr E) d)))) w"

text \<open>Lines 378-386: one directory and one \<open>session.json\<close> per visit that stayed.\<close>

definition write_session_json :: "env \<Rightarrow> pyval \<Rightarrow> pyval \<times> minc_visit \<Rightarrow> unit io" where
  "write_session_json E cand_id entry w =
     io_bind (ensure_dir (base_directory w @ ''/'' @ py_str (py_repr E) cand_id @ ''/''
                @ py_str (py_repr E) (fst entry))) (\<lambda>_.
     io_bind (file_open_w (base_directory w @ ''/'' @ py_str (py_repr E) cand_id @ ''/''
                @ py_str (py_repr E) (fst entry) @ ''/session.json'')) (\<lambda>_.
     io_bind (io_lift (getitem (session_json (snd entry)) ''Meta'')) (\<lambda>meta.
     file_write (base_directory w @ ''/'' @ py_str (py_repr E) cand_id @ ''/'' @ py_str (py_repr E) (fst entry)
                   @ ''/session.json'')
       (py_str (py_repr E) meta)))) w"

text \<open>
  Lines 391-404, one image: the image with ETag checking and, when that call returns
  \<open>New\<close>, its QC file without. The result is what the image download returned.
\<close>

definition get_image :: "env \<Rightarrow> pyval \<Rightarrow> pyval \<Rightarrow> headers \<Rightarrow> pyval \<Rightarrow> download io" where
  "get_image E cand_id visit session_object session_file w =
     io_bind (io_lift (as_str session_file)) (\<lambda>name.
     io_bind (get_file E
                (''/candidates/'' @ py_str (py_repr E) cand_id @ ''/'' @ py_str (py_repr E) visit @ ''/images/''
                   @ py_str (py_repr E) session_file)
                (base_directory w @ py_str (py_repr E) cand_id @ ''/'' @ py_str (py_repr E) visit @ ''/'')
                name True session_object) (\<lambda>status.
     if status = New then
       io_bind (get_file E
                  (''/candidates/'' @ py_str (py_repr E) cand_id @ ''/'' @ py_str (py_repr E) visit @ ''/images/''
                     @ py_str (py_repr E) session_file @ ''/qc'')
                  (base_directory w @ py_str (py_repr E) cand_id @ ''/'' @ py_str (py_repr E) visit @ ''/'')
                  (name @ ''.qc.json'') False session_object) (\<lambda>_.
       io_return status)
     else io_return status)) w"

text \<open>Lines 389-404: every image of every visit, with what each download returned.\<close>

definition get_images ::
  "env \<Rightarrow> pyval \<Rightarrow> headers \<Rightarrow> (pyval \<times> minc_visit) list \<Rightarrow> download list list io"
where
  "get_images E cand_id session_object visits =
     map_io (\<lambda>entry. map_io (get_image E cand_id (fst entry) session_object)
                        (Filenames (snd entry)))
       visits"

text \<open>\<open>process_minc_func\<close> (BHD.py, lines 308-410).\<close>

definition process_minc_func :: "env \<Rightarrow> pyval \<Rightarrow> minc_candidate io" where
  "process_minc_func E candidate w =
     io_bind (io_lift (getitem candidate ''CandID'')) (\<lambda>cand_id.
     io_bind (build_visits E cand_id (new_session w)) (\<lambda>visits.
     io_bind (write_candidate_json E candidate cand_id) (\<lambda>_.
     io_bind (for_each (write_session_json E cand_id) visits) (\<lambda>_.
     io_bind (get_images E cand_id (new_session w) visits) (\<lambda>_.
     io_return
       \<lparr>properties = (case candidate of PDict d \<Rightarrow> d | _ \<Rightarrow> []),
        minc_visits = visits\<rparr>))))) w"

text \<open>\<open>create_minc_candidates_list\<close> (BHD.py, lines 603-627).\<close>

definition create_minc_candidates_list :: "env \<Rightarrow> pyval io" where
  "create_minc_candidates_list E w =
     io_bind (get_json E ''/candidates/'' (new_session w)) (\<lambda>answer.
     io_lift (getitem answer ''Candidates'')) w"

section \<open>Vocabulary of the properties\<close>

text \<open>
  An outcome after which \<open>process_api_get\<close> sends the request again: one of the two caught
  exceptions, or a response whose status is not among the expected ones.
\<close>

definition retried :: "int list \<Rightarrow> outcome \<Rightarrow> bool" where
  "retried expected_codes out =
     (case out of
        ConnectTimeout msg \<Rightarrow> True
      | ConnectionError msg \<Rightarrow> True
      | OtherRequestException \<Rightarrow> False
      | Response r \<Rightarrow> status_code r \<notin> set expected_codes)"

text \<open>Nothing but the network bookkeeping and the printed output differs.\<close>

definition disk_and_globals_kept :: "world \<Rightarrow> world \<Rightarrow> bool" where
  "disk_and_globals_kept w w' =
     (files w' = files w \<and> dirs w' = dirs w \<and> fetches w' = fetches w \<and> token w' = token w
      \<and> base_directory w' = base_directory w \<and> verbosity w' = verbosity w)"

text \<open>
  The request \<open>get_file\<close> sends and the status codes it expects: conditional when ETag
  checking is on and the sidecar exists, plain otherwise.
\<close>

definition file_request :: "world \<Rightarrow> string \<Rightarrow> string \<Rightarrow> string \<Rightarrow> bool \<Rightarrow> headers \<Rightarrow> request" where
  "file_request w api_request download_location filename etag_checking session_object =
     mk_request (hostname @ api_version @ api_request) session_object
       (if etag_checking then
          (case files w (etag_path download_location filename) of
             None \<Rightarrow> []
           | Some etag \<Rightarrow> [(''If-None-Match'', etag)])
        else [])"

definition file_expected :: "world \<Rightarrow> string \<Rightarrow> string \<Rightarrow> bool \<Rightarrow> int list" where
  "file_expected w download_location filename etag_checking =
     (if etag_checking \<and> files w (etag_path download_location filename) \<noteq> None
      then [200, 304] else [200])"

text \<open>The result of a call, and a file on the disk it leaves.\<close>

definition outcome_of :: "((error + 'a) \<times> world) option \<Rightarrow> (error + 'a) option" where
  "outcome_of x = map_option fst x"

definition file_after :: "((error + 'a) \<times> world) option \<Rightarrow> string \<Rightarrow> string option" where
  "file_after x path = (case x of None \<Rightarrow> None | Some (r, w') \<Rightarrow> files w' path)"

text \<open>
  For the tree of the categorized schema. A record of the manifest belongs to a candidate
  and a visit when its fields \<open>Candidate\<close> and \<open>Visit\<close> are equal (as dictionary keys) to
  them; an image record belongs to a category when its field \<open>Subfolder\<close> is.
\<close>

definition field_is :: "pyval \<Rightarrow> string \<Rightarrow> pyval \<Rightarrow> bool" where
  "field_is r name k =
     (case getitem r name of Inl e \<Rightarrow> False | Inr x \<Rightarrow> norm_key x = norm_key k)"

definition record_of :: "pyval \<Rightarrow> pyval \<Rightarrow> pyval \<Rightarrow> bool" where
  "record_of c v r = (field_is r ''Candidate'' c \<and> field_is r ''Visit'' v)"

definition image_in :: "pyval \<Rightarrow> pyval \<Rightarrow> pyval \<Rightarrow> pyval \<Rightarrow> bool" where
  "image_in c v s r = (record_of c v r \<and> field_is r ''Subfolder'' s)"

text \<open>The two links of a session record, and the records listed under a key of the manifest.\<close>

definition session_links :: "pyval \<Rightarrow> pyval list" where
  "session_links r =
     (case getitem r ''TsvLink'' of
        Inl e \<Rightarrow> []
      | Inr tsv \<Rightarrow> (case getitem r ''JsonLink'' of Inl e \<Rightarrow> [] | Inr jsn \<Rightarrow> [tsv, jsn]))"

definition manifest_list :: "pyval \<Rightarrow> string \<Rightarrow> pyval list" where
  "manifest_list file_manifest key =
     (case err_bind (getitem file_manifest key) py_iter of Inl e \<Rightarrow> [] | Inr xs \<Rightarrow> xs)"

text \<open>
  The visit record of a candidate and a visit in the returned list: that of the first
  candidate with this \<open>CandID\<close>.
\<close>

definition visit_record :: "bids_candidate list \<Rightarrow> pyval \<Rightarrow> pyval \<Rightarrow> bids_visit option" where
  "visit_record cands c v =
     (case find (\<lambda>cand. norm_key (CandID cand) = norm_key c) cands of
        None \<Rightarrow> None
      | Some cand \<Rightarrow> dict_get (Visits cand) v)"

text \<open>No key occurs twice in a dictionary.\<close>

definition keys_distinct :: "(pyval \<times> 'v) list \<Rightarrow> bool" where
  "keys_distinct d = distinct (map (\<lambda>p. norm_key (fst p)) d)"

text \<open>
  The same look-ups in the dictionary \<open>candidates['Candidates']\<close> while the loops run, and
  what the loops keep true of it: keys are distinct, and every candidate is stored under
  its own \<open>CandID\<close>.
\<close>

definition dict_visit :: "bids_dict \<Rightarrow> pyval \<Rightarrow> pyval \<Rightarrow> bids_visit option" where
  "dict_visit cs c v =
     (case dict_get cs c of None \<Rightarrow> None | Some cand \<Rightarrow> dict_get (Visits cand) v)"

definition dict_folder :: "bids_dict \<Rightarrow> pyval \<Rightarrow> pyval \<Rightarrow> pyval \<Rightarrow> pyval list" where
  "dict_folder cs c v s =
     (case dict_visit cs c v of None \<Rightarrow> [] | Some visit \<Rightarrow> folder_files (Folders visit) s)"

definition dict_ok :: "bids_dict \<Rightarrow> bool" where
  "dict_ok cs =
     (keys_distinct cs
      \<and> (\<forall>p \<in> set cs. CandID (snd p) = fst p \<and> keys_distinct (Visits (snd p))))"

text \<open>
  For the flat schema: the path of a candidate's \<open>candidate.json\<close>, and the projection
  as the specification words it, with six properties (the code's has seven).
\<close>

definition candidate_json_path :: "env \<Rightarrow> world \<Rightarrow> pyval \<Rightarrow> string" where
  "candidate_json_path E w cand_id =
     base_directory w @ ''/'' @ py_str (py_repr E) cand_id @ ''/candidate.json''"

definition spec_candidate_json_keys :: "string list" where
  "spec_candidate_json_keys = [''CandID'', ''Site'', ''DoB'', ''Gender'', ''Language'', ''Project'']"

definition spec_candidate_projection :: "pyval \<Rightarrow> error + pyval" where
  "spec_candidate_projection candidate =
     err_bind (map_err (\<lambda>property_key.
                 err_bind (getitem candidate property_key) (\<lambda>v. Inr (property_key, v)))
               spec_candidate_json_keys)
       (\<lambda>d. Inr (PDict d))"

section \<open>Example runs\<close>

text \<open>
  An example for the parameter \<open>int_builtin\<close>: it reads a word of ASCII digits as the
  decimal number and nothing else.
\<close>

definition digit_table :: "(char \<times> nat) list" where
  "digit_table = zip ''0123456789'' [0, 1, 2, 3, 4, 5, 6, 7, 8, 9]"

fun digits_value :: "nat \<Rightarrow> string \<Rightarrow> nat option" where
  "digits_value acc [] = Some acc"
| "digits_value acc (c # cs) =
     (case map_of digit_table c of
        None \<Rightarrow> None
      | Some d \<Rightarrow> digits_value (10 * acc + d) cs)"

definition decimal_word :: "string \<Rightarrow> int option" where
  "decimal_word s = (if s = [] then None else map_option int (digits_value 0 s))"

text \<open>
  An example for the parameter \<open>py_repr\<close>, for values whose strings are ASCII: a string
  is put in single quotes, unless it has a single quote and no double quote; backslash,
  the quote in use, newline, return and tab are escaped, other control characters are
  written \<open>\xNN\<close>.
\<close>

definition hex_digit :: "nat \<Rightarrow> char" where
  "hex_digit d = ''0123456789abcdef'' ! d"

definition repr_char :: "char \<Rightarrow> char \<Rightarrow> string" where
  "repr_char quote c =
     (if c = CHR 0x5C then [CHR 0x5C, CHR 0x5C]
      else if c = quote then [CHR 0x5C, quote]
      else if c = CHR 0x0A then [CHR 0x5C, CHR ''n'']
      else if c = CHR 0x0D then [CHR 0x5C, CHR ''r'']
      else if c = CHR 0x09 then [CHR 0x5C, CHR ''t'']
      else if (of_char c :: nat) < 32 \<or> (of_char c :: nat) = 127 then
        [CHR 0x5C, CHR ''x'', hex_digit ((of_char c :: nat) div 16),
         hex_digit ((of_char c :: nat) mod 16)]
      else [c])"

definition repr_str :: "string \<Rightarrow> string" where
  "repr_str s =
     (if CHR 0x27 \<in> set s \<and> CHR 0x22 \<notin> set s
      then [CHR 0x22] @ concat (map (repr_char (CHR 0x22)) s) @ [CHR 0x22]
      else [CHR 0x27] @ concat (map (repr_char (CHR 0x27)) s) @ [CHR 0x27])"

fun join :: "string \<Rightarrow> string list \<Rightarrow> string" where
  "join sep [] = []"
| "join sep [x] = x"
| "join sep (x # y # ys) = x @ sep @ join sep (y # ys)"

fun ascii_repr :: "pyval \<Rightarrow> string" where
  "ascii_repr PNone = ''None''"
| "ascii_repr (PBool b) = (if b then ''True'' else ''False'')"
| "ascii_repr (PInt i) = str_int i"
| "ascii_repr (PStr s) = repr_str s"
| "ascii_repr (PList xs) = ''['' @ join '', '' (map ascii_repr xs) @ '']''"
| "ascii_repr (PDict d) =
     ''{'' @ join '', '' (map (\<lambda>kv. repr_str (fst kv) @ '': '' @ ascii_repr (snd kv)) d) @ ''}''"



definition fresh_world :: world where
  "fresh_world =
     \<lparr>files = Map.empty, dirs = {}, token = ''t'', verbosity = False,
      base_directory = ''/data/'', stdout = [], clock = 0, sent = [], fetches = []\<rparr>"


text \<open>
  A server that honours \<open>If-None-Match\<close> for the tag \<open>v1\<close>, one that never sends an
  \<open>ETag\<close> header, a disk whose sidecar is current and one whose sidecar is stale.
\<close>

definition etag_env :: env where
  "etag_env =
     \<lparr>server = (\<lambda>i rq.
         if map_of (req_headers rq) ''If-None-Match'' = Some ''v1''
         then Response \<lparr>status_code = 304, content = [], resp_headers = [(''ETag'', ''v1'')]\<rparr>
         else Response \<lparr>status_code = 200, content = ''bytes'',
                         resp_headers = [(''ETag'', ''v1'')]\<rparr>),
      login_server = (\<lambda>u n p. OtherRequestException),
      now = (\<lambda>i. ''now''),
      json_loads = (\<lambda>s. None),
      str_to_int = decimal_word,
      py_repr = ascii_repr\<rparr>"

definition no_etag_env :: env where
  "no_etag_env =
     \<lparr>server = (\<lambda>i rq. Response \<lparr>status_code = 200, content = ''bytes'',
                                  resp_headers = [(''Content-Type'', ''application/x-minc'')]\<rparr>),
      login_server = (\<lambda>u n p. OtherRequestException),
      now = (\<lambda>i. ''now''),
      json_loads = (\<lambda>s. None),
      str_to_int = decimal_word,
      py_repr = ascii_repr\<rparr>"

definition cached_world :: world where
  "cached_world =
     fresh_world\<lparr>files := [''/data/.img.etag'' \<mapsto> ''v1'', ''/data/img'' \<mapsto> ''bytes'']\<rparr>"

definition stale_world :: world where
  "stale_world =
     fresh_world\<lparr>files := [''/data/.img.etag'' \<mapsto> ''v0'', ''/data/img'' \<mapsto> ''old'']\<rparr>"

text \<open>
  A manifest of the categorized schema with one session record and three image records,
  two of them of the category \<open>anat\<close>; the tree it folds to; and a manifest in which two
  session records name the same candidate and visit.
\<close>

definition bids_session :: "string \<Rightarrow> pyval" where
  "bids_session stem =
     PDict [(''Candidate'', PStr ''1234567''), (''Visit'', PStr ''V01''),
            (''TsvLink'', PStr (stem @ ''.tsv'')), (''JsonLink'', PStr (stem @ ''.json''))]"

definition bids_image :: "string \<Rightarrow> string \<Rightarrow> pyval" where
  "bids_image category link =
     PDict [(''Candidate'', PStr ''1234567''), (''PSCID'', PStr ''MTL0001''),
            (''Visit'', PStr ''V01''), (''LorisScanType'', PStr ''t1w''),
            (''Subfolder'', PStr category), (''NiftiLink'', PStr link)]"

definition bids_manifest :: pyval where
  "bids_manifest =
     PDict [(''SessionFiles'', PList [bids_session ''scans'']),
            (''Images'', PList [bids_image ''anat'' ''a.nii'', bids_image ''func'' ''b.nii'',
                                bids_image ''anat'' ''c.nii''])]"

definition bids_tree :: "bids_candidate list" where
  "bids_tree =
     [\<lparr>CandID = PStr ''1234567'',
       Visits = [(PStr ''V01'',
                  \<lparr>Files = [PStr ''scans.tsv'', PStr ''scans.json''],
                   Folders = [(PStr ''anat'', [PStr ''a.nii'', PStr ''c.nii'']),
                              (PStr ''func'', [PStr ''b.nii''])]\<rparr>)]\<rparr>]"

definition twice_manifest :: pyval where
  "twice_manifest =
     PDict [(''SessionFiles'', PList [bids_session ''first'', bids_session ''second'']),
            (''Images'', PList [])]"

text \<open>A candidate as the API lists it.\<close>

definition loris_candidate :: pyval where
  "loris_candidate =
     PDict [(''CandID'', PStr ''1234567''), (''Project'', PStr ''loris''),
            (''PSCID'', PStr ''MTL0001''), (''Site'', PStr ''MTL''),
            (''EDC'', PNone), (''DoB'', PStr ''1950-01-01''),
            (''Gender'', PStr ''Female''), (''Language'', PStr ''fr'')]"

section \<open>Properties of the argument checker\<close>

text \<open>
  Claim C10. Whatever the built-in \<open>int\<close> does on strings: the checker accepts exactly the
  words that \<open>int\<close> reads as an integer \<open>n\<close> with \<open>1000000 < n < 9999999\<close>, and returns
  \<open>n\<close>; every other word (one that \<open>int\<close> refuses, or one it reads as an integer at most
  1000000 or at least 9999999) raises an argument-type error. So a word read as one of
  the boundary values 1000000 and 9999999 is rejected.
\<close>

theorem candidate_argument_checker_range:
  "(candidate_argument_checker int_builtin s = Inr n \<longleftrightarrow>
      int_builtin s = Some n \<and> 1000000 < n \<and> n < 9999999)
   \<and> (is_argument_type_error (candidate_argument_checker int_builtin s) \<longleftrightarrow>
      int_builtin s = None
      \<or> (\<exists>m. int_builtin s = Some m \<and> (m \<le> 1000000 \<or> 9999999 \<le> m)))
   \<and> (int_builtin s = Some 1000000 \<longrightarrow>
        is_argument_type_error (candidate_argument_checker int_builtin s))
   \<and> (int_builtin s = Some 9999999 \<longrightarrow>
        is_argument_type_error (candidate_argument_checker int_builtin s))"
proof -
  have accept: "candidate_argument_checker int_builtin s = Inr n \<longleftrightarrow>
      int_builtin s = Some n \<and> 1000000 < n \<and> n < 9999999"
    by (cases "int_builtin s") (auto simp: candidate_argument_checker_def)
  have reject: "is_argument_type_error (candidate_argument_checker int_builtin s) \<longleftrightarrow>
      int_builtin s = None
      \<or> (\<exists>m. int_builtin s = Some m \<and> (m \<le> 1000000 \<or> 9999999 \<le> m))"
    by (cases "int_builtin s")
       (auto simp: candidate_argument_checker_def is_argument_type_error_def)
  have lo: "int_builtin s = Some 1000000 \<longrightarrow>
      is_argument_type_error (candidate_argument_checker int_builtin s)"
    by (simp add: candidate_argument_checker_def is_argument_type_error_def)
  have hi: "int_builtin s = Some 9999999 \<longrightarrow>
      is_argument_type_error (candidate_argument_checker int_builtin s)"
    by (simp add: candidate_argument_checker_def is_argument_type_error_def)
  from accept reject lo hi show ?thesis by blast
qed

lemma decimal_word_examples:
  "decimal_word ''1200000'' = Some 1200000"
  "decimal_word ''1000000'' = Some 1000000"
  "decimal_word ''9999999'' = Some 9999999"
  "decimal_word ''12x'' = None"
  by (simp_all add: decimal_word_def digit_table_def)

theorem candidate_argument_checker_range_witness:
  "candidate_argument_checker decimal_word ''1200000'' = Inr 1200000
   \<and> is_argument_type_error (candidate_argument_checker decimal_word ''12x'')
   \<and> is_argument_type_error (candidate_argument_checker decimal_word ''1000000'')
   \<and> is_argument_type_error (candidate_argument_checker decimal_word ''9999999'')"
proof -
  have a: "candidate_argument_checker decimal_word ''1200000'' = Inr 1200000"
    using candidate_argument_checker_range [of decimal_word "''1200000''" 1200000]
    by (simp add: decimal_word_examples)
  have b: "is_argument_type_error (candidate_argument_checker decimal_word ''12x'')"
    using candidate_argument_checker_range [of decimal_word "''12x''" 0]
    by (simp add: decimal_word_examples)
  have c: "is_argument_type_error (candidate_argument_checker decimal_word ''1000000'')"
    using candidate_argument_checker_range [of decimal_word "''1000000''" 0]
    by (simp add: decimal_word_examples)
  have d: "is_argument_type_error (candidate_argument_checker decimal_word ''9999999'')"
    using candidate_argument_checker_range [of decimal_word "''9999999''" 0]
    by (simp add: decimal_word_examples)
  from a b c d show ?thesis by simp
qed

section \<open>Properties of the GET executor\<close>

lemma issue_fields [simp]:
  "clock (issue rq w) = Suc (clock w)"
  "sent (issue rq w) = sent w @ [rq]"
  "files (issue rq w) = files w"
  "dirs (issue rq w) = dirs w"
  "fetches (issue rq w) = fetches w"
  "token (issue rq w) = token w"
  "base_directory (issue rq w) = base_directory w"
  "verbosity (issue rq w) = verbosity w"
  "stdout (issue rq w) = stdout w"
  by (simp_all add: issue_def)

lemma print_fields [simp]:
  "clock (print l w) = clock w"
  "sent (print l w) = sent w"
  "files (print l w) = files w"
  "dirs (print l w) = dirs w"
  "fetches (print l w) = fetches w"
  "token (print l w) = token w"
  "base_directory (print l w) = base_directory w"
  "verbosity (print l w) = verbosity w"
  "stdout (print l w) = stdout w @ [l]"
  by (simp_all add: print_def)

lemma report_retry_fields [simp]:
  "clock (report_retry E k K a m w) = clock w"
  "sent (report_retry E k K a m w) = sent w"
  "files (report_retry E k K a m w) = files w"
  "dirs (report_retry E k K a m w) = dirs w"
  "fetches (report_retry E k K a m w) = fetches w"
  "token (report_retry E k K a m w) = token w"
  "base_directory (report_retry E k K a m w) = base_directory w"
  "verbosity (report_retry E k K a m w) = verbosity w"
  by (simp_all add: report_retry_def)

lemma process_api_get_after_retries:
  assumes "\<forall>j<k. retried expected_codes (server E (clock w + j) (mk_request url session_object headers))"
    and "server E (clock w + k) (mk_request url session_object headers) = Response r"
    and "status_code r \<in> set expected_codes"
  shows "\<exists>w'. process_api_get E url headers api_request expected_codes session_object w = Some (Inr r, w')
           \<and> clock w' = clock w + k + 1
           \<and> sent w' = sent w @ replicate (k + 1) (mk_request url session_object headers)
           \<and> disk_and_globals_kept w w'"
  using assms
proof (induction k arbitrary: w)
  case 0
  then show ?case
    by (subst process_api_get.simps) (simp add: disk_and_globals_kept_def)
next
  case (Suc k)
  let ?rq = "mk_request url session_object headers"
  have first: "retried expected_codes (server E (clock w) ?rq)"
    using Suc.prems(1) by (metis add.right_neutral zero_less_Suc)
  have step: "\<And>w1. clock w1 = Suc (clock w) \<Longrightarrow>
      (\<forall>j<k. retried expected_codes (server E (clock w1 + j) ?rq))
      \<and> server E (clock w1 + k) ?rq = Response r"
    using Suc.prems(1,2) by (metis Suc_less_eq add_Suc_shift)
  show ?case
  proof (cases "server E (clock w) ?rq")
    case (ConnectTimeout msg)
    let ?w1 = "issue ?rq (report_retry E ''timeout'' ''Connection timeout'' api_request msg w)"
    have c: "clock ?w1 = Suc (clock w)" by simp
    from Suc.IH [of ?w1] step [OF c] Suc.prems(3)
    obtain w' where "process_api_get E url headers api_request expected_codes session_object ?w1 = Some (Inr r, w')"
      and "clock w' = clock ?w1 + k + 1"
      and "sent w' = sent ?w1 @ replicate (k + 1) ?rq"
      and "disk_and_globals_kept ?w1 w'"
      by blast
    then show ?thesis
      using ConnectTimeout
      by (subst process_api_get.simps) (simp add: replicate_app_Cons_same disk_and_globals_kept_def)
  next
    case (ConnectionError msg)
    let ?w1 = "issue ?rq (report_retry E ''connection'' ''Connection error'' api_request msg w)"
    have c: "clock ?w1 = Suc (clock w)" by simp
    from Suc.IH [of ?w1] step [OF c] Suc.prems(3)
    obtain w' where "process_api_get E url headers api_request expected_codes session_object ?w1 = Some (Inr r, w')"
      and "clock w' = clock ?w1 + k + 1"
      and "sent w' = sent ?w1 @ replicate (k + 1) ?rq"
      and "disk_and_globals_kept ?w1 w'"
      by blast
    then show ?thesis
      using ConnectionError
      by (subst process_api_get.simps) (simp add: replicate_app_Cons_same disk_and_globals_kept_def)
  next
    case OtherRequestException
    with first show ?thesis by (simp add: retried_def)
  next
    case (Response r0)
    with first have unexpected: "status_code r0 \<notin> set expected_codes"
      by (simp add: retried_def)
    let ?w1 = "issue ?rq w"
    have c: "clock ?w1 = Suc (clock w)" by simp
    from Suc.IH [of ?w1] step [OF c] Suc.prems(3)
    obtain w' where "process_api_get E url headers api_request expected_codes session_object ?w1 = Some (Inr r, w')"
      and "clock w' = clock ?w1 + k + 1"
      and "sent w' = sent ?w1 @ replicate (k + 1) ?rq"
      and "disk_and_globals_kept ?w1 w'"
      by blast
    then show ?thesis
      using Response unexpected
      by (subst process_api_get.simps) (simp add: replicate_app_Cons_same disk_and_globals_kept_def)
  qed
qed







section \<open>Properties of the file download\<close>

lemma note_fetch_fields [simp]:
  "clock (note_fetch c w) = clock w"
  "sent (note_fetch c w) = sent w"
  "files (note_fetch c w) = files w"
  "dirs (note_fetch c w) = dirs w"
  "fetches (note_fetch c w) = fetches w @ [c]"
  "token (note_fetch c w) = token w"
  "base_directory (note_fetch c w) = base_directory w"
  "verbosity (note_fetch c w) = verbosity w"
  "stdout (note_fetch c w) = stdout w"
  by (simp_all add: note_fetch_def)

lemma body_path_not_etag_path: "download_location @ filename \<noteq> etag_path download_location filename"
proof
  assume "download_location @ filename = etag_path download_location filename"
  then have "length (download_location @ filename) = length (etag_path download_location filename)"
    by simp
  then show False by (simp add: etag_path_def)
qed

lemmas io_defs = io_bind_def io_return_def io_lift_def io_print_def print_if_verbose_def
  file_open_w_def file_write_def file_read_def os_remove_def os_path_isfile_def

lemma get_file_with_sidecar:
  assumes sc: "files w (etag_path download_location filename) = Some etag"
    and req: "process_api_get E (hostname @ api_version @ api_request) [(''If-None-Match'', etag)]
        api_request [200, 304] session_object
        (note_fetch (api_request, download_location, filename, True) w) = Some (Inr r, w1)"
  shows "get_file E api_request download_location filename True session_object w =
     (if status_code r = 304 then
        io_bind (print_if_verbose (''File: '' @ filename @ '' was already downloaded''))
          (\<lambda>_. io_return Current) w1
      else
        io_bind (os_remove (etag_path download_location filename))
          (\<lambda>_. save_file E api_request download_location filename True session_object (Some r)) w1)"
  using sc req by (simp add: get_file_def Let_def os_path_isfile_def io_bind_def file_read_def)

lemma get_file_without_sidecar:
  assumes "\<not> etag_checking \<or> files w (etag_path download_location filename) = None"
  shows "get_file E api_request download_location filename etag_checking session_object w =
     save_file E api_request download_location filename etag_checking session_object None
       (note_fetch (api_request, download_location, filename, etag_checking) w)"
  using assms by (auto simp add: get_file_def Let_def os_path_isfile_def)


lemma write_download_without_etag:
  assumes "header_getitem (resp_headers r) ''ETag'' = Inl e"
  shows "write_download api_request download_location filename True r w =
     Some (Inl e, w\<lparr>files := (files w)(download_location @ filename \<mapsto> content r,
                                        etag_path download_location filename \<mapsto> [])\<rparr>)"
  using assms body_path_not_etag_path [of download_location filename]
  by (simp add: write_download_def io_defs)




lemma get_file_missing_etag:
  assumes retries: "\<forall>j<k. retried (file_expected w download_location filename True)
        (server E (clock w + j)
           (file_request w api_request download_location filename True session_object))"
    and answer: "server E (clock w + k)
           (file_request w api_request download_location filename True session_object)
         = Response r"
    and ok: "status_code r = 200"
    and tag: "header_getitem (resp_headers r) ''ETag'' = Inl e"
  shows "\<exists>w'. get_file E api_request download_location filename True session_object w
           = Some (Inl e, w')
       \<and> files w' = (files w)(download_location @ filename \<mapsto> content r,
                                etag_path download_location filename \<mapsto> [])
       \<and> dirs w' = dirs w"
proof (cases "files w (etag_path download_location filename)")
  case (Some etag)
  let ?c = "(api_request, download_location, filename, True)"
  let ?rq = "mk_request (hostname @ api_version @ api_request) session_object
      [(''If-None-Match'', etag)]"
  have rq: "file_request w api_request download_location filename True session_object = ?rq"
    by (simp add: file_request_def Some)
  have ex: "file_expected w download_location filename True = [200, 304]"
    by (simp add: file_expected_def Some)
  from retries answer ok
  have "\<exists>w1. process_api_get E (hostname @ api_version @ api_request) [(''If-None-Match'', etag)]
        api_request [200, 304] session_object (note_fetch ?c w) = Some (Inr r, w1)
      \<and> clock w1 = clock (note_fetch ?c w) + k + 1
      \<and> sent w1 = sent (note_fetch ?c w) @ replicate (k + 1) ?rq
      \<and> disk_and_globals_kept (note_fetch ?c w) w1"
    by (intro process_api_get_after_retries) (simp_all add: rq ex)
  then obtain w1 where run: "process_api_get E (hostname @ api_version @ api_request)
        [(''If-None-Match'', etag)] api_request [200, 304] session_object (note_fetch ?c w)
        = Some (Inr r, w1)"
    and k1: "disk_and_globals_kept (note_fetch ?c w) w1"
    by auto
  from k1 have f1: "files w1 = files w" and d1: "dirs w1 = dirs w"
    by (simp_all add: disk_and_globals_kept_def)
  let ?w2 = "w1\<lparr>files := (files w1)(etag_path download_location filename := None)\<rparr>"
  have "get_file E api_request download_location filename True session_object w
      = write_download api_request download_location filename True r ?w2"
    using get_file_with_sidecar [OF Some run] ok
    by (simp add: io_bind_def os_remove_def os_path_isfile_def f1 Some save_file_def
          io_return_def response_ok_def)
  then show ?thesis
    using write_download_without_etag [OF tag, of api_request download_location filename ?w2] f1 d1
    by (auto simp add: fun_eq_iff)
next
  case None
  let ?c = "(api_request, download_location, filename, True)"
  let ?rq = "mk_request (hostname @ api_version @ api_request) session_object []"
  have rq: "file_request w api_request download_location filename True session_object = ?rq"
    by (simp add: file_request_def None)
  have ex: "file_expected w download_location filename True = [200]"
    by (simp add: file_expected_def None)
  from retries answer ok
  have "\<exists>w1. process_api_get E (hostname @ api_version @ api_request) []
        api_request [200] session_object (note_fetch ?c w) = Some (Inr r, w1)
      \<and> clock w1 = clock (note_fetch ?c w) + k + 1
      \<and> sent w1 = sent (note_fetch ?c w) @ replicate (k + 1) ?rq
      \<and> disk_and_globals_kept (note_fetch ?c w) w1"
    by (intro process_api_get_after_retries) (simp_all add: rq ex)
  then obtain w1 where run: "process_api_get E (hostname @ api_version @ api_request) []
        api_request [200] session_object (note_fetch ?c w) = Some (Inr r, w1)"
    and k1: "disk_and_globals_kept (note_fetch ?c w) w1"
    by auto
  from k1 have f1: "files w1 = files w" and d1: "dirs w1 = dirs w"
    by (simp_all add: disk_and_globals_kept_def)
  have "get_file E api_request download_location filename True session_object w
      = write_download api_request download_location filename True r w1"
    using get_file_without_sidecar [of True w download_location filename E api_request session_object]
      None run
    by (simp add: save_file_def io_bind_def)
  then show ?thesis
    using write_download_without_etag [OF tag, of api_request download_location filename w1] f1 d1
    by auto
qed



text \<open>
  Claim C4. With ETag checking on and a sidecar on disk, when the server answers the
  conditional request (after any number of retried attempts) with status 304, \<open>get_file\<close>
  returns \<open>Current\<close> and leaves every file as it was: no body is written and the sidecar
  is neither changed nor removed. No directory changes either.
\<close>

theorem get_file_not_modified:
  assumes sc: "files w (etag_path download_location filename) = Some etag"
    and retries: "\<forall>j<k. retried [200, 304]
        (server E (clock w + j)
           (mk_request (hostname @ api_version @ api_request) session_object
              [(''If-None-Match'', etag)]))"
    and answer: "server E (clock w + k)
           (mk_request (hostname @ api_version @ api_request) session_object
              [(''If-None-Match'', etag)]) = Response r"
    and nm: "status_code r = 304"
  shows "\<exists>w'. get_file E api_request download_location filename True session_object w
           = Some (Inr Current, w')
       \<and> files w' = files w \<and> dirs w' = dirs w
       \<and> sent w' = sent w @ replicate (k + 1)
           (mk_request (hostname @ api_version @ api_request) session_object
              [(''If-None-Match'', etag)])"
proof -
  let ?c = "(api_request, download_location, filename, True)"
  let ?rq = "mk_request (hostname @ api_version @ api_request) session_object
      [(''If-None-Match'', etag)]"
  from retries answer nm
  have "\<exists>w1. process_api_get E (hostname @ api_version @ api_request) [(''If-None-Match'', etag)]
        api_request [200, 304] session_object (note_fetch ?c w) = Some (Inr r, w1)
      \<and> clock w1 = clock (note_fetch ?c w) + k + 1
      \<and> sent w1 = sent (note_fetch ?c w) @ replicate (k + 1) ?rq
      \<and> disk_and_globals_kept (note_fetch ?c w) w1"
    by (intro process_api_get_after_retries) simp_all
  then obtain w1 where run: "process_api_get E (hostname @ api_version @ api_request)
        [(''If-None-Match'', etag)] api_request [200, 304] session_object (note_fetch ?c w)
        = Some (Inr r, w1)"
    and s1: "sent w1 = sent w @ replicate (k + 1) ?rq"
    and k1: "disk_and_globals_kept (note_fetch ?c w) w1"
    by auto
  from k1 have f1: "files w1 = files w" and d1: "dirs w1 = dirs w"
    by (simp_all add: disk_and_globals_kept_def)
  show ?thesis
    using get_file_with_sidecar [OF sc run] nm f1 d1 s1
    by (cases "verbosity w1") (simp_all add: io_defs print_def)
qed

theorem get_file_not_modified_witness:
  "\<exists>w'. get_file etag_env ''/img'' ''/data/'' ''img'' True [] cached_world = Some (Inr Current, w')
       \<and> files w' = files cached_world \<and> dirs w' = dirs cached_world"
proof -
  have "files cached_world (etag_path ''/data/'' ''img'') = Some ''v1''"
    by (simp add: cached_world_def fresh_world_def etag_path_def)
  moreover have "\<forall>j<0. retried [200, 304] (server etag_env (clock cached_world + j)
      (mk_request (hostname @ api_version @ ''/img'') [] [(''If-None-Match'', ''v1'')]))"
    by simp
  moreover have "server etag_env (clock cached_world + 0)
      (mk_request (hostname @ api_version @ ''/img'') [] [(''If-None-Match'', ''v1'')])
      = Response \<lparr>status_code = 304, content = [], resp_headers = [(''ETag'', ''v1'')]\<rparr>"
    by (simp add: etag_env_def mk_request_def)
  ultimately show ?thesis
    using get_file_not_modified [of cached_world "''/data/''" "''img''" "''v1''" 0 etag_env
        "''/img''" "[]" "\<lparr>status_code = 304, content = [], resp_headers = [(''ETag'', ''v1'')]\<rparr>"]
    by auto
qed


lemma header_getitem_missing:
  "header_getitem hs name = Inl e \<Longrightarrow> e = KeyError (PStr (lower name))"
  by (auto simp add: header_getitem_def split: option.splits)

lemma lower_ETag: "lower ''ETag'' = ''etag''"
  by (simp add: lower_def lower_char_def lower_table_def)

lemma no_etag_env_answer:
  "server no_etag_env i rq = Response \<lparr>status_code = 200, content = ''bytes'',
      resp_headers = [(''Content-Type'', ''application/x-minc'')]\<rparr>"
  by (simp add: no_etag_env_def)

lemma no_etag_header:
  "header_getitem [(''Content-Type'', ''application/x-minc'')] ''ETag'' = Inl (KeyError (PStr ''etag''))"
  by (simp add: header_getitem_def lower_def lower_char_def lower_table_def)




text \<open>
  Claim C9, as the code has it. With ETag checking on, when the server answers with
  status 200 and the response has no \<open>ETag\<close> header, \<open>get_file\<close> raises \<open>KeyError\<close> after
  the body has been written in full. The sidecar has by then been opened for writing,
  so the call leaves the body together with an empty sidecar file (a stale sidecar has
  been removed and created again, empty).
\<close>

theorem get_file_without_etag_header:
  assumes "\<forall>j<k. retried (file_expected w download_location filename True)
        (server E (clock w + j)
           (file_request w api_request download_location filename True session_object))"
    and "server E (clock w + k)
           (file_request w api_request download_location filename True session_object)
         = Response r"
    and "status_code r = 200"
    and "header_getitem (resp_headers r) ''ETag'' = Inl e"
  shows "e = KeyError (PStr ''etag'')
     \<and> (\<exists>w'. get_file E api_request download_location filename True session_object w
               = Some (Inl (KeyError (PStr ''etag'')), w')
           \<and> files w' (download_location @ filename) = Some (content r)
           \<and> files w' (etag_path download_location filename) = Some []
           \<and> dirs w' = dirs w)"
proof -
  from header_getitem_missing [OF assms(4)] have e: "e = KeyError (PStr ''etag'')"
    by (simp add: lower_ETag)
  from get_file_missing_etag [OF assms]
  obtain w' where "get_file E api_request download_location filename True session_object w
           = Some (Inl e, w')"
    and "files w' = (files w)(download_location @ filename \<mapsto> content r,
                                etag_path download_location filename \<mapsto> [])"
    and "dirs w' = dirs w"
    by blast
  with e body_path_not_etag_path [of download_location filename] show ?thesis
    by auto
qed

theorem get_file_without_etag_header_witness:
  "\<exists>w'. get_file no_etag_env ''/img'' ''/data/'' ''img'' True [] fresh_world
           = Some (Inl (KeyError (PStr ''etag'')), w')
       \<and> files w' ''/data/img'' = Some ''bytes''
       \<and> files w' ''/data/.img.etag'' = Some []
       \<and> dirs w' = dirs fresh_world"
proof -
  let ?r = "\<lparr>status_code = 200, content = ''bytes'',
      resp_headers = [(''Content-Type'', ''application/x-minc'')]\<rparr>"
  have "KeyError (PStr ''etag'') = KeyError (PStr ''etag'')
     \<and> (\<exists>w'. get_file no_etag_env ''/img'' ''/data/'' ''img'' True [] fresh_world
               = Some (Inl (KeyError (PStr ''etag'')), w')
           \<and> files w' (''/data/'' @ ''img'') = Some (content ?r)
           \<and> files w' (etag_path ''/data/'' ''img'') = Some []
           \<and> dirs w' = dirs fresh_world)"
    by (rule get_file_without_etag_header [where k = 0])
       (simp_all add: no_etag_env_answer no_etag_header)
  then show ?thesis
    by (simp add: etag_path_def)
qed

text \<open>
  Claim C9 as worded fails in its last part: after the exception the sidecar is on disk,
  with no content. Here a stale sidecar \<open>v0\<close> was there before the call.
\<close>

theorem get_file_sidecar_counterexample:
  "outcome_of (get_file no_etag_env ''/img'' ''/data/'' ''img'' True [] stale_world)
     = Some (Inl (KeyError (PStr ''etag'')))
   \<and> file_after (get_file no_etag_env ''/img'' ''/data/'' ''img'' True [] stale_world)
       ''/data/img'' = Some ''bytes''
   \<and> file_after (get_file no_etag_env ''/img'' ''/data/'' ''img'' True [] stale_world)
       ''/data/.img.etag'' = Some []
   \<and> file_after (get_file no_etag_env ''/img'' ''/data/'' ''img'' True [] stale_world)
       ''/data/.img.etag'' \<noteq> None"
proof -
  let ?r = "\<lparr>status_code = 200, content = ''bytes'',
      resp_headers = [(''Content-Type'', ''application/x-minc'')]\<rparr>"
  have "\<exists>w'. get_file no_etag_env ''/img'' ''/data/'' ''img'' True [] stale_world
           = Some (Inl (KeyError (PStr ''etag'')), w')
       \<and> files w' = (files stale_world)(''/data/'' @ ''img'' \<mapsto> content ?r,
                                etag_path ''/data/'' ''img'' \<mapsto> [])
       \<and> dirs w' = dirs stale_world"
    by (rule get_file_missing_etag [where k = 0])
       (simp_all add: no_etag_env_answer no_etag_header)
  then show ?thesis
    by (auto simp add: outcome_of_def file_after_def etag_path_def)
qed

section \<open>Properties of the categorized manifest\<close>

lemma err_bind_Inr:
  "err_bind m f = Inr y \<longleftrightarrow> (\<exists>x. m = Inr x \<and> f x = Inr y)"
  by (cases m) (simp_all add: err_bind_def)

lemma dict_get_same_key:
  "norm_key k = norm_key k' \<Longrightarrow> dict_get d k = dict_get d k'"
  by (induction d) auto

lemma dict_get_None_iff:
  "dict_get d k = None \<longleftrightarrow> norm_key k \<notin> (\<lambda>p. norm_key (fst p)) ` set d"
proof (induction d)
  case Nil
  then show ?case by simp
next
  case (Cons p d)
  have "dict_get (p # d) k = None \<longleftrightarrow>
      norm_key k \<noteq> norm_key (fst p) \<and> dict_get d k = None"
    by (cases p) auto
  with Cons.IH show ?case by simp
qed

lemma dict_set_absent:
  "dict_get d k = None \<Longrightarrow> dict_set k v d = d @ [(k, v)]"
  by (induction d) (auto split: if_splits)

lemma dict_set_present:
  "dict_get d k = Some v0 \<Longrightarrow>
     \<exists>d1 k0 d2. d = d1 @ (k0, v0) # d2 \<and> norm_key k0 = norm_key k
       \<and> dict_get d1 k = None \<and> dict_set k v d = d1 @ (k0, v) # d2"
proof (induction d)
  case Nil
  then show ?case by simp
next
  case (Cons p d)
  obtain k' v' where p: "p = (k', v')" by (cases p)
  show ?case
  proof (cases "norm_key k' = norm_key k")
    case True
    with Cons.prems p have "v' = v0" by simp
    with True p have "p # d = [] @ (k', v0) # d \<and> norm_key k' = norm_key k
        \<and> dict_get [] k = None \<and> dict_set k v (p # d) = [] @ (k', v) # d"
      by simp
    then show ?thesis by blast
  next
    case False
    with Cons.prems p have "dict_get d k = Some v0" by simp
    from Cons.IH [OF this] obtain d1 k0 d2 where "d = d1 @ (k0, v0) # d2"
      and "norm_key k0 = norm_key k" and "dict_get d1 k = None"
      and "dict_set k v d = d1 @ (k0, v) # d2"
      by blast
    with False p have "p # d = (p # d1) @ (k0, v0) # d2 \<and> norm_key k0 = norm_key k
        \<and> dict_get (p # d1) k = None \<and> dict_set k v (p # d) = (p # d1) @ (k0, v) # d2"
      by simp
    then show ?thesis by blast
  qed
qed

lemma dict_get_set:
  "dict_get (dict_set k v d) k' = (if norm_key k' = norm_key k then Some v else dict_get d k')"
  by (induction d) auto

lemma dict_get_snoc:
  "dict_get (d @ [(k, v)]) k' =
     (case dict_get d k' of
        Some x \<Rightarrow> Some x
      | None \<Rightarrow> if norm_key k' = norm_key k then Some v else None)"
  by (induction d) auto

lemma keys_distinct_set:
  "keys_distinct d \<Longrightarrow> keys_distinct (dict_set k v d)"
proof (cases "dict_get d k")
  case None
  assume "keys_distinct d"
  with None show ?thesis
    by (auto simp add: dict_set_absent keys_distinct_def dict_get_None_iff)
next
  case (Some v0)
  assume kd: "keys_distinct d"
  from dict_set_present [OF Some, of v] obtain d1 k0 d2 where "d = d1 @ (k0, v0) # d2"
    and "dict_set k v d = d1 @ (k0, v) # d2"
    by blast
  with kd show ?thesis by (simp add: keys_distinct_def)
qed

lemma field_is_Inr: "getitem r name = Inr x \<Longrightarrow> field_is r name k \<longleftrightarrow> norm_key x = norm_key k"
  by (simp add: field_is_def)

lemma dict_ok_replace:
  assumes ok: "dict_ok cs"
    and got: "dict_get cs c = Some cand"
    and vis: "keys_distinct visits"
  shows "dict_ok (dict_set c (cand\<lparr>Visits := visits\<rparr>) cs)"
proof -
  from dict_set_present [OF got, of "cand\<lparr>Visits := visits\<rparr>"]
  obtain d1 k0 d2 where cs: "cs = d1 @ (k0, cand) # d2"
    and set: "dict_set c (cand\<lparr>Visits := visits\<rparr>) cs = d1 @ (k0, cand\<lparr>Visits := visits\<rparr>) # d2"
    by blast
  from ok cs have "CandID cand = k0" by (simp add: dict_ok_def)
  with ok vis show ?thesis
    unfolding set unfolding cs by (auto simp add: dict_ok_def keys_distinct_def)
qed

lemma dict_ok_new:
  assumes ok: "dict_ok cs"
    and got: "dict_get cs c = None"
  shows "dict_ok (cs @ [(c, \<lparr>CandID = c, Visits = [(v, r)]\<rparr>)])"
  using assms by (auto simp add: dict_ok_def keys_distinct_def dict_get_None_iff)

lemma session_step_effect:
  assumes "session_step r cs = Inr cs'"
  shows "dict_visit cs' c v =
      (if record_of c v r then Some \<lparr>Files = session_links r, Folders = []\<rparr>
       else dict_visit cs c v)"
    and "dict_ok cs \<Longrightarrow> dict_ok cs'"
proof -
  from assms obtain c0 where c0: "getitem r ''Candidate'' = Inr c0"
    and rest: "(case dict_get cs c0 of
       None \<Rightarrow>
         err_bind (getitem r ''Visit'') (\<lambda>v.
         err_bind (getitem r ''TsvLink'') (\<lambda>tsv.
         err_bind (getitem r ''JsonLink'') (\<lambda>jsn.
         err_bind (py_key v) (\<lambda>_.
         Inr (cs @
              [(c0, \<lparr>CandID = c0,
                    Visits = [(v, \<lparr>Files = [tsv, jsn], Folders = []\<rparr>)]\<rparr>)])))))
     | Some cand \<Rightarrow>
         err_bind (getitem r ''TsvLink'') (\<lambda>tsv.
         err_bind (getitem r ''JsonLink'') (\<lambda>jsn.
         err_bind (getitem r ''Visit'') (\<lambda>v.
         err_bind (py_key v) (\<lambda>_.
         Inr (dict_set c0
                (cand\<lparr>Visits := dict_set v \<lparr>Files = [tsv, jsn], Folders = []\<rparr>
                                    (Visits cand)\<rparr>)
                cs)))))) = Inr cs'"
    by (auto simp add: session_step_def err_bind_Inr)
  show "dict_visit cs' c v =
      (if record_of c v r then Some \<lparr>Files = session_links r, Folders = []\<rparr>
       else dict_visit cs c v)"
  proof (cases "dict_get cs c0")
    case None
    with rest obtain v0 tsv jsn where f: "getitem r ''Visit'' = Inr v0"
        "getitem r ''TsvLink'' = Inr tsv" "getitem r ''JsonLink'' = Inr jsn"
      and cs': "cs' = cs @ [(c0, \<lparr>CandID = c0,
                    Visits = [(v0, \<lparr>Files = [tsv, jsn], Folders = []\<rparr>)]\<rparr>)]"
      by (auto simp add: err_bind_Inr)
    have same: "norm_key c = norm_key c0 \<Longrightarrow> dict_get cs c = None"
      using None dict_get_same_key [of c c0 cs] by simp
    from f c0 have "record_of c v r \<longleftrightarrow> norm_key c0 = norm_key c \<and> norm_key v0 = norm_key v"
      by (simp add: record_of_def field_is_Inr)
    moreover from f have "session_links r = [tsv, jsn]"
      by (simp add: session_links_def)
    ultimately show ?thesis
      using same
      by (auto simp add: cs' dict_visit_def dict_get_snoc split: option.splits)
  next
    case (Some cand)
    with rest obtain v0 tsv jsn where f: "getitem r ''Visit'' = Inr v0"
        "getitem r ''TsvLink'' = Inr tsv" "getitem r ''JsonLink'' = Inr jsn"
      and cs': "cs' = dict_set c0
                (cand\<lparr>Visits := dict_set v0 \<lparr>Files = [tsv, jsn], Folders = []\<rparr>
                                    (Visits cand)\<rparr>) cs"
      by (auto simp add: err_bind_Inr)
    have same: "norm_key c = norm_key c0 \<Longrightarrow> dict_get cs c = Some cand"
      using Some dict_get_same_key [of c c0 cs] by simp
    from f c0 have "record_of c v r \<longleftrightarrow> norm_key c0 = norm_key c \<and> norm_key v0 = norm_key v"
      by (simp add: record_of_def field_is_Inr)
    moreover from f have "session_links r = [tsv, jsn]"
      by (simp add: session_links_def)
    ultimately show ?thesis
      using same
      by (auto simp add: cs' dict_visit_def dict_get_set)
  qed
  show "dict_ok cs \<Longrightarrow> dict_ok cs'"
  proof (cases "dict_get cs c0")
    case None
    assume ok: "dict_ok cs"
    from None rest obtain v0 tsv jsn where
      cs': "cs' = cs @ [(c0, \<lparr>CandID = c0,
                    Visits = [(v0, \<lparr>Files = [tsv, jsn], Folders = []\<rparr>)]\<rparr>)]"
      by (auto simp add: err_bind_Inr)
    show ?thesis unfolding cs' by (rule dict_ok_new [OF ok None])
  next
    case (Some cand)
    assume ok: "dict_ok cs"
    from Some rest obtain v0 tsv jsn where
      cs': "cs' = dict_set c0
                (cand\<lparr>Visits := dict_set v0 \<lparr>Files = [tsv, jsn], Folders = []\<rparr>
                                    (Visits cand)\<rparr>) cs"
      by (auto simp add: err_bind_Inr)
    from dict_set_present [OF Some, of cand] obtain d1 k0 d2 where "cs = d1 @ (k0, cand) # d2"
      by blast
    with ok have "keys_distinct (Visits cand)" by (simp add: dict_ok_def)
    then have "keys_distinct (dict_set v0 \<lparr>Files = [tsv, jsn], Folders = []\<rparr> (Visits cand))"
      by (rule keys_distinct_set)
    from dict_ok_replace [OF ok Some this] show ?thesis by (simp add: cs')
  qed
qed

lemma folder_files_set:
  "folder_files (dict_set s x folders) s' =
     (if norm_key s' = norm_key s then x else folder_files folders s')"
  by (simp add: folder_files_def dict_get_set)

lemma folder_files_same_key:
  "norm_key s' = norm_key s \<Longrightarrow> folder_files folders s' = folder_files folders s"
  by (simp add: folder_files_def dict_get_same_key [of s' s])

lemma folder_files_append_links:
  "folder_files (append_links s links folders) s' =
     folder_files folders s' @ (if norm_key s' = norm_key s then links else [])"
proof (induction links arbitrary: folders)
  case Nil
  then show ?case by simp
next
  case (Cons link links)
  show ?case
    using folder_files_same_key [of s' s folders]
    by (simp add: Cons.IH folder_files_set)
qed

lemma folder_files_lazy:
  "folder_files (if dict_get folders s = None then folders @ [(s, [])] else folders) s' =
     folder_files folders s'"
  by (auto simp add: folder_files_def dict_get_snoc split: option.splits)

lemma keys_distinct_append_links:
  "keys_distinct folders \<Longrightarrow> keys_distinct (append_links s links folders)"
  by (induction links arbitrary: folders) (simp_all add: keys_distinct_set)

lemma image_step_effect:
  assumes "image_step r cs = Inr cs'"
  shows "map_option Files (dict_visit cs' c v) = map_option Files (dict_visit cs c v)"
    and "dict_folder cs' c v s =
      dict_folder cs c v s @ (if image_in c v s r then image_links r else [])"
    and "dict_ok cs \<Longrightarrow> dict_ok cs'"
proof -
  from assms obtain s0 c0 where s0: "getitem r ''Subfolder'' = Inr s0"
    and c0: "getitem r ''Candidate'' = Inr c0"
    and rest: "(case dict_get cs c0 of
       None \<Rightarrow> Inl (KeyError c0)
     | Some cand \<Rightarrow>
         err_bind (getitem r ''Visit'') (\<lambda>v.
         err_bind (py_key v) (\<lambda>_.
         case dict_get (Visits cand) v of
           None \<Rightarrow> Inl (KeyError v)
         | Some visit \<Rightarrow>
             err_bind (py_key s0) (\<lambda>_.
             Inr (dict_set c0
                    (cand\<lparr>Visits :=
                       dict_set v
                         (visit\<lparr>Folders :=
                            append_links s0 (image_links r)
                              (if dict_get (Folders visit) s0 = None
                               then Folders visit @ [(s0, [])]
                               else Folders visit)\<rparr>)
                         (Visits cand)\<rparr>)
                    cs))))) = Inr cs'"
    by (auto simp add: image_step_def err_bind_Inr)
  from rest obtain cand where cand: "dict_get cs c0 = Some cand"
    by (cases "dict_get cs c0") auto
  with rest obtain v0 where v0: "getitem r ''Visit'' = Inr v0"
    and rest2: "(case dict_get (Visits cand) v0 of
           None \<Rightarrow> Inl (KeyError v0)
         | Some visit \<Rightarrow>
             err_bind (py_key s0) (\<lambda>_.
             Inr (dict_set c0
                    (cand\<lparr>Visits :=
                       dict_set v0
                         (visit\<lparr>Folders :=
                            append_links s0 (image_links r)
                              (if dict_get (Folders visit) s0 = None
                               then Folders visit @ [(s0, [])]
                               else Folders visit)\<rparr>)
                         (Visits cand)\<rparr>)
                    cs))) = Inr cs'"
    by (auto simp add: err_bind_Inr)
  from rest2 obtain visit where visit: "dict_get (Visits cand) v0 = Some visit"
    by (cases "dict_get (Visits cand) v0") auto
  let ?folders = "append_links s0 (image_links r)
      (if dict_get (Folders visit) s0 = None then Folders visit @ [(s0, [])] else Folders visit)"
  from rest2 visit have cs': "cs' = dict_set c0
      (cand\<lparr>Visits := dict_set v0 (visit\<lparr>Folders := ?folders\<rparr>) (Visits cand)\<rparr>) cs"
    by (auto simp add: err_bind_Inr)
  have same_c: "norm_key c = norm_key c0 \<Longrightarrow> dict_get cs c = Some cand"
    using cand dict_get_same_key [of c c0 cs] by simp
  have same_v: "norm_key v = norm_key v0 \<Longrightarrow> dict_get (Visits cand) v = Some visit"
    using visit dict_get_same_key [of v v0 "Visits cand"] by simp
  have dv: "dict_visit cs' c v =
      (if norm_key c = norm_key c0 \<and> norm_key v = norm_key v0
       then Some (visit\<lparr>Folders := ?folders\<rparr>) else dict_visit cs c v)"
    using same_c by (auto simp add: cs' dict_visit_def dict_get_set)
  have old: "norm_key c = norm_key c0 \<and> norm_key v = norm_key v0 \<Longrightarrow>
      dict_visit cs c v = Some visit"
    using same_c same_v by (simp add: dict_visit_def)
  from s0 c0 v0 have im: "image_in c v s r \<longleftrightarrow>
      norm_key c0 = norm_key c \<and> norm_key v0 = norm_key v \<and> norm_key s0 = norm_key s"
    by (simp add: image_in_def record_of_def field_is_Inr)
  show "map_option Files (dict_visit cs' c v) = map_option Files (dict_visit cs c v)"
    using dv old by auto
  show "dict_folder cs' c v s =
      dict_folder cs c v s @ (if image_in c v s r then image_links r else [])"
    using dv old im
    by (auto simp add: dict_folder_def folder_files_append_links folder_files_lazy
          simp del: append_links.simps)
  show "dict_ok cs \<Longrightarrow> dict_ok cs'"
  proof -
    assume ok: "dict_ok cs"
    from dict_set_present [OF cand, of cand] obtain d1 k0 d2 where "cs = d1 @ (k0, cand) # d2"
      by blast
    with ok have "keys_distinct (Visits cand)" by (simp add: dict_ok_def)
    then have "keys_distinct (dict_set v0 (visit\<lparr>Folders := ?folders\<rparr>) (Visits cand))"
      by (rule keys_distinct_set)
    from dict_ok_replace [OF ok cand this] show ?thesis by (simp add: cs')
  qed
qed

lemma fold_sessions_effect:
  assumes "fold_err session_step rs cs = Inr cs'"
  shows "dict_visit cs' c v =
      (case filter (record_of c v) rs of
         [] \<Rightarrow> dict_visit cs c v
       | m # ms \<Rightarrow> Some \<lparr>Files = session_links (last (m # ms)), Folders = []\<rparr>)
     \<and> (dict_ok cs \<longrightarrow> dict_ok cs')"
  using assms
proof (induction rs arbitrary: cs)
  case Nil
  then show ?case by simp
next
  case (Cons r rs)
  from Cons.prems obtain cs1 where s1: "session_step r cs = Inr cs1"
    and f1: "fold_err session_step rs cs1 = Inr cs'"
    by (auto simp add: err_bind_Inr)
  from Cons.IH [OF f1]
  have ih: "dict_visit cs' c v =
      (case filter (record_of c v) rs of
         [] \<Rightarrow> dict_visit cs1 c v
       | m # ms \<Rightarrow> Some \<lparr>Files = session_links (last (m # ms)), Folders = []\<rparr>)"
    and ok: "dict_ok cs1 \<longrightarrow> dict_ok cs'"
    by simp_all
  from ih session_step_effect(1) [OF s1, of c v] session_step_effect(2) [OF s1] ok
  show ?case
    by (cases "filter (record_of c v) rs") auto
qed

lemma fold_images_effect:
  assumes "fold_err image_step rs cs = Inr cs'"
  shows "map_option Files (dict_visit cs' c v) = map_option Files (dict_visit cs c v)
     \<and> dict_folder cs' c v s =
         dict_folder cs c v s @ concat (map image_links (filter (image_in c v s) rs))
     \<and> (dict_ok cs \<longrightarrow> dict_ok cs')"
  using assms
proof (induction rs arbitrary: cs)
  case Nil
  then show ?case by simp
next
  case (Cons r rs)
  from Cons.prems obtain cs1 where s1: "image_step r cs = Inr cs1"
    and f1: "fold_err image_step rs cs1 = Inr cs'"
    by (auto simp add: err_bind_Inr)
  from Cons.IH [OF f1] image_step_effect(1) [OF s1, of c v]
    image_step_effect(2) [OF s1, of c v s] image_step_effect(3) [OF s1]
  show ?case by auto
qed

lemma find_by_key:
  assumes "\<forall>p \<in> set cs. CandID (snd p) = fst p"
  shows "find (\<lambda>cand. norm_key (CandID cand) = norm_key c) (map snd cs) = dict_get cs c"
  using assms
proof (induction cs)
  case Nil
  then show ?case by simp
next
  case (Cons p cs)
  obtain k cand where p: "p = (k, cand)" by (cases p)
  with Cons show ?case by auto
qed

lemma dict_ok_values:
  assumes "dict_ok cs"
  shows "visit_record (map snd cs) c v = dict_visit cs c v"
    and "distinct (map (\<lambda>cand. norm_key (CandID cand)) (map snd cs))"
    and "\<forall>cand \<in> set (map snd cs). keys_distinct (Visits cand)"
proof -
  from assms have k: "\<forall>p \<in> set cs. CandID (snd p) = fst p"
    by (simp add: dict_ok_def)
  show "visit_record (map snd cs) c v = dict_visit cs c v"
    by (simp add: visit_record_def dict_visit_def find_by_key [OF k])
  from k have "map (\<lambda>cand. norm_key (CandID cand)) (map snd cs) = map (\<lambda>p. norm_key (fst p)) cs"
    by (induction cs) simp_all
  moreover from assms have "distinct (map (\<lambda>p. norm_key (fst p)) cs)"
    by (simp add: dict_ok_def keys_distinct_def)
  ultimately show "distinct (map (\<lambda>cand. norm_key (CandID cand)) (map snd cs))"
    by (simp only:)
  from assms show "\<forall>cand \<in> set (map snd cs). keys_distinct (Visits cand)"
    by (auto simp add: dict_ok_def)
qed

lemma fold_manifest_parts:
  assumes "fold_manifest file_manifest = Inr cands"
  shows "\<exists>cs0 cs.
      fold_err session_step (manifest_list file_manifest ''SessionFiles'') [] = Inr cs0
    \<and> fold_err image_step (manifest_list file_manifest ''Images'') cs0 = Inr cs
    \<and> cands = map snd cs"
proof -
  from assms obtain sessions cs0 images cs where
    "err_bind (getitem file_manifest ''SessionFiles'') py_iter = Inr sessions"
    and "fold_err session_step sessions [] = Inr cs0"
    and "err_bind (getitem file_manifest ''Images'') py_iter = Inr images"
    and "fold_err image_step images cs0 = Inr cs"
    and "cands = map snd cs"
    unfolding fold_manifest_def err_bind_Inr [of _ _ cands] by blast
  then show ?thesis by (simp add: manifest_list_def)
qed

text \<open>
  Claim C3, as the code has it. When the two loops of \<open>create_bids_candidates_list\<close> run
  through, the returned list has one candidate per \<open>CandID\<close> and each candidate one visit
  record per visit name; a candidate and a visit have a visit record exactly when some
  session record names them. Its \<open>Files\<close> are the two links of the LAST session record
  that names the pair: a later session record of the same pair replaces the \<open>Files\<close> of an
  earlier one, it does not merge with it. The image records do merge into that visit
  record: the list of a category holds the links of all image records of the pair with
  this \<open>Subfolder\<close>, in manifest order, so a category seen twice accumulates.
\<close>

theorem fold_manifest_visit_records:
  assumes "fold_manifest file_manifest = Inr cands"
  shows "distinct (map (\<lambda>cand. norm_key (CandID cand)) cands)
     \<and> (\<forall>cand \<in> set cands. keys_distinct (Visits cand))
     \<and> (visit_record cands c v = None \<longleftrightarrow>
          filter (record_of c v) (manifest_list file_manifest ''SessionFiles'') = [])
     \<and> (\<forall>visit. visit_record cands c v = Some visit \<longrightarrow>
          Files visit =
            session_links (last (filter (record_of c v)
                                   (manifest_list file_manifest ''SessionFiles'')))
          \<and> (\<forall>s. folder_files (Folders visit) s =
                 concat (map image_links
                           (filter (image_in c v s) (manifest_list file_manifest ''Images'')))))"
proof -
  let ?sessions = "manifest_list file_manifest ''SessionFiles''"
  let ?images = "manifest_list file_manifest ''Images''"
  from fold_manifest_parts [OF assms] obtain cs0 cs where
    f0: "fold_err session_step ?sessions [] = Inr cs0"
    and f1: "fold_err image_step ?images cs0 = Inr cs"
    and cands: "cands = map snd cs"
    by blast
  have ok_empty: "dict_ok []" by (simp add: dict_ok_def keys_distinct_def)
  from fold_sessions_effect [OF f0, of c v] ok_empty
  have v0: "dict_visit cs0 c v =
      (case filter (record_of c v) ?sessions of
         [] \<Rightarrow> None
       | m # ms \<Rightarrow> Some \<lparr>Files = session_links (last (m # ms)), Folders = []\<rparr>)"
    and ok0: "dict_ok cs0"
    by (cases "filter (record_of c v) ?sessions"; simp add: dict_visit_def)+
  have fo0: "dict_folder cs0 c v s = []" for s
    using v0 by (cases "filter (record_of c v) ?sessions")
      (simp_all add: dict_folder_def folder_files_def)
  from fold_images_effect [OF f1] ok0
  have files: "map_option Files (dict_visit cs c v) = map_option Files (dict_visit cs0 c v)"
    and folders: "\<And>s. dict_folder cs c v s =
         dict_folder cs0 c v s @ concat (map image_links (filter (image_in c v s) ?images))"
    and ok: "dict_ok cs"
    by simp_all
  note vals = dict_ok_values [OF ok]
  have a: "distinct (map (\<lambda>cand. norm_key (CandID cand)) cands)"
    using vals(2) by (simp add: cands)
  have b: "\<forall>cand \<in> set cands. keys_distinct (Visits cand)"
    using vals(3) by (simp add: cands)
  have vr: "visit_record cands c v = dict_visit cs c v"
    using vals(1) by (simp add: cands)
  have c: "visit_record cands c v = None \<longleftrightarrow> filter (record_of c v) ?sessions = []"
    using files v0 by (cases "filter (record_of c v) ?sessions") (auto simp add: vr)
  have d: "\<forall>visit. visit_record cands c v = Some visit \<longrightarrow>
          Files visit = session_links (last (filter (record_of c v) ?sessions))
          \<and> (\<forall>s. folder_files (Folders visit) s =
                 concat (map image_links (filter (image_in c v s) ?images)))"
  proof (intro allI impI)
    fix visit assume some: "visit_record cands c v = Some visit"
    with vr have dv: "dict_visit cs c v = Some visit" by simp
    with files v0 have "Files visit = session_links (last (filter (record_of c v) ?sessions))"
      by (cases "filter (record_of c v) ?sessions") auto
    moreover have "\<forall>s. folder_files (Folders visit) s =
        concat (map image_links (filter (image_in c v s) ?images))"
      using folders fo0 dv by (simp add: dict_folder_def)
    ultimately show "Files visit = session_links (last (filter (record_of c v) ?sessions))
          \<and> (\<forall>s. folder_files (Folders visit) s =
                 concat (map image_links (filter (image_in c v s) ?images)))"
      by simp
  qed
  from a b c d show ?thesis by blast
qed

lemma bids_manifest_folded: "fold_manifest bids_manifest = Inr bids_tree"
  by (simp add: fold_manifest_def bids_manifest_def bids_tree_def bids_session_def
        bids_image_def err_bind_def session_step_def image_step_def metadata_keys_def
        folder_files_def)

theorem fold_manifest_visit_records_witness:
  "fold_manifest bids_manifest = Inr bids_tree
   \<and> (\<exists>visit. visit_record bids_tree (PStr ''1234567'') (PStr ''V01'') = Some visit
        \<and> Files visit = [PStr ''scans.tsv'', PStr ''scans.json'']
        \<and> folder_files (Folders visit) (PStr ''anat'') = [PStr ''a.nii'', PStr ''c.nii''])"
proof -
  let ?c = "PStr ''1234567''" and ?v = "PStr ''V01''"
  have some: "visit_record bids_tree ?c ?v \<noteq> None"
    by (simp add: visit_record_def bids_tree_def)
  then obtain visit where visit: "visit_record bids_tree ?c ?v = Some visit"
    by blast
  with fold_manifest_visit_records [OF bids_manifest_folded, of ?c ?v]
  have "Files visit =
      session_links (last (filter (record_of ?c ?v) (manifest_list bids_manifest ''SessionFiles'')))"
    and "folder_files (Folders visit) (PStr ''anat'') =
      concat (map image_links
                (filter (image_in ?c ?v (PStr ''anat'')) (manifest_list bids_manifest ''Images'')))"
    by blast+
  then have "Files visit = [PStr ''scans.tsv'', PStr ''scans.json'']"
    and "folder_files (Folders visit) (PStr ''anat'') = [PStr ''a.nii'', PStr ''c.nii'']"
    by (simp_all add: manifest_list_def bids_manifest_def bids_session_def bids_image_def
          err_bind_def record_of_def image_in_def field_is_def session_links_def
          metadata_keys_def)
  with visit bids_manifest_folded show ?thesis by blast
qed

text \<open>
  Claim C3 as worded fails for two session records of the same candidate and visit: the
  visit record keeps the links of the second only.
\<close>

theorem fold_manifest_overwrite_counterexample:
  "fold_manifest twice_manifest =
     Inr [\<lparr>CandID = PStr ''1234567'',
           Visits = [(PStr ''V01'',
                      \<lparr>Files = [PStr ''second.tsv'', PStr ''second.json''], Folders = []\<rparr>)]\<rparr>]
   \<and> length (filter (record_of (PStr ''1234567'') (PStr ''V01''))
               (manifest_list twice_manifest ''SessionFiles'')) = 2"
  by (simp add: fold_manifest_def twice_manifest_def bids_session_def err_bind_def
        session_step_def manifest_list_def record_of_def field_is_def)

section \<open>Properties of the flat materialization\<close>

lemma candidate_projection_seven:
  assumes "getitem candidate ''CandID'' = Inr cand_id"
    and "getitem candidate ''PSCID'' = Inr pscid"
    and "getitem candidate ''Site'' = Inr site"
    and "getitem candidate ''DoB'' = Inr dob"
    and "getitem candidate ''Gender'' = Inr gender"
    and "getitem candidate ''Language'' = Inr language"
    and "getitem candidate ''Project'' = Inr project"
  shows "candidate_projection candidate =
     Inr (PDict [(''CandID'', cand_id), (''PSCID'', pscid), (''Site'', site), (''DoB'', dob),
                 (''Gender'', gender), (''Language'', language), (''Project'', project)])"
  using assms by (simp add: candidate_projection_def candidate_json_keys_def err_bind_def)

text \<open>
  Claim C2, as the code has it. For a candidate that has the seven properties \<open>CandID\<close>,
  \<open>PSCID\<close>, \<open>Site\<close>, \<open>DoB\<close>, \<open>Gender\<close>, \<open>Language\<close> and \<open>Project\<close>, lines 360-376 return
  and leave in \<open>candidate.json\<close> the text (\<open>str\<close>, which for a dictionary is \<open>repr\<close>) of
  the dictionary of exactly these seven properties, in this order: the six of the
  specification and \<open>PSCID\<close>. No other file changes, and no directory is made but the
  candidate's.
\<close>

theorem candidate_json_seven_fields:
  assumes "getitem candidate ''CandID'' = Inr cand_id"
    and "getitem candidate ''PSCID'' = Inr pscid"
    and "getitem candidate ''Site'' = Inr site"
    and "getitem candidate ''DoB'' = Inr dob"
    and "getitem candidate ''Gender'' = Inr gender"
    and "getitem candidate ''Language'' = Inr language"
    and "getitem candidate ''Project'' = Inr project"
  shows "\<exists>w'. write_candidate_json E candidate cand_id w = Some (Inr (), w')
     \<and> files w' = (files w)(candidate_json_path E w cand_id \<mapsto>
          py_repr E (PDict [(''CandID'', cand_id), (''PSCID'', pscid), (''Site'', site),
                            (''DoB'', dob), (''Gender'', gender), (''Language'', language),
                            (''Project'', project)]))
     \<and> dirs w' \<subseteq> insert (base_directory w @ ''/'' @ py_str (py_repr E) cand_id) (dirs w)"
  using candidate_projection_seven [OF assms]
  by (auto simp add: write_candidate_json_def candidate_json_path_def io_bind_def io_lift_def
        io_return_def ensure_dir_def os_makedirs_def file_open_w_def file_write_def)

theorem candidate_json_seven_fields_witness:
  "\<exists>w'. write_candidate_json etag_env loris_candidate (PStr ''1234567'') fresh_world
          = Some (Inr (), w')
     \<and> files w' ''/data//1234567/candidate.json'' =
         Some ''{'CandID': '1234567', 'PSCID': 'MTL0001', 'Site': 'MTL', 'DoB': '1950-01-01', 'Gender': 'Female', 'Language': 'fr', 'Project': 'loris'}''
     \<and> dirs w' = {''/data//1234567''}"
proof -
  from candidate_json_seven_fields [of loris_candidate "PStr ''1234567''" "PStr ''MTL0001''"
      "PStr ''MTL''" "PStr ''1950-01-01''" "PStr ''Female''" "PStr ''fr''" "PStr ''loris''"
      etag_env fresh_world]
  obtain w' where run: "write_candidate_json etag_env loris_candidate (PStr ''1234567'') fresh_world
          = Some (Inr (), w')"
    and f: "files w' = (files fresh_world)(candidate_json_path etag_env fresh_world (PStr ''1234567'') \<mapsto>
          py_repr etag_env (PDict [(''CandID'', PStr ''1234567''), (''PSCID'', PStr ''MTL0001''),
       (''Site'', PStr ''MTL''), (''DoB'', PStr ''1950-01-01''), (''Gender'', PStr ''Female''),
       (''Language'', PStr ''fr''), (''Project'', PStr ''loris'')]))"
    by (auto simp add: loris_candidate_def)
  from f have "files w' ''/data//1234567/candidate.json'' =
         Some ''{'CandID': '1234567', 'PSCID': 'MTL0001', 'Site': 'MTL', 'DoB': '1950-01-01', 'Gender': 'Female', 'Language': 'fr', 'Project': 'loris'}''"
    by (simp add: candidate_json_path_def fresh_world_def etag_env_def repr_str_def repr_char_def)
  moreover from run have "dirs w' = {''/data//1234567''}"
    by (auto simp add: write_candidate_json_def io_bind_def io_lift_def
        io_return_def ensure_dir_def os_makedirs_def file_open_w_def file_write_def
        os_path_exists_def fresh_world_def etag_env_def
        split: option.splits sum.splits)
  ultimately show ?thesis using run by blast
qed

text \<open>
  Claim C2 as worded fails: for a candidate of the API the file holds \<open>PSCID\<close> too, so
  its text is not that of the six properties the specification lists.
\<close>

theorem candidate_json_six_fields_counterexample:
  "file_after (write_candidate_json etag_env loris_candidate (PStr ''1234567'') fresh_world)
     ''/data//1234567/candidate.json''
     = Some ''{'CandID': '1234567', 'PSCID': 'MTL0001', 'Site': 'MTL', 'DoB': '1950-01-01', 'Gender': 'Female', 'Language': 'fr', 'Project': 'loris'}''
   \<and> map_sum id (py_str ascii_repr) (spec_candidate_projection loris_candidate)
     = Inr ''{'CandID': '1234567', 'Site': 'MTL', 'DoB': '1950-01-01', 'Gender': 'Female', 'Language': 'fr', 'Project': 'loris'}''
   \<and> file_after (write_candidate_json etag_env loris_candidate (PStr ''1234567'') fresh_world)
     ''/data//1234567/candidate.json''
     \<noteq> Some ''{'CandID': '1234567', 'Site': 'MTL', 'DoB': '1950-01-01', 'Gender': 'Female', 'Language': 'fr', 'Project': 'loris'}''"
  by (simp add: file_after_def write_candidate_json_def io_bind_def io_lift_def
        io_return_def ensure_dir_def os_makedirs_def file_open_w_def file_write_def
        os_path_exists_def fresh_world_def etag_env_def loris_candidate_def
        candidate_projection_def candidate_json_keys_def err_bind_def
        spec_candidate_projection_def spec_candidate_json_keys_def
        repr_str_def repr_char_def)

end
